theory Spec2Isabelle
  imports Main "HOL-Library.AList" "HOL-Library.Char_ord" "HOL-Library.List_Lexorder"
begin

text \<open>
  The task aggregation and query tools of the Amazing Marvin MCP server
  (\<open>src/amazing_marvin_mcp/api.py\<close> and \<open>main.py\<close>): the store query \<open>query_tasks\<close> with
  its selector, the field projection of \<open>find_docs\<close>, \<open>get_all_tasks\<close> and \<open>query_tasks\<close>,
  the grouping of \<open>get_completed_tasks_for_date\<close>, \<open>get_children\<close> and
  \<open>batch_mark_done\<close>. The network is an explicit state: every function that talks to
  the upstream takes the transport and the state of the network and returns its result,
  or the exception it raises, with the new state.
\<close>

section \<open>Python values\<close>

text \<open>
  Documents travel as parsed JSON. A dict is an association list with distinct keys, read
  with \<open>map_of\<close> and written with \<open>AList.update\<close> (an assignment \<open>d[k] = v\<close> keeps the
  position of an existing key and appends a new one, as a Python dict does). Numbers are
  integers: non-integral JSON numbers are outside the model.
\<close>

datatype json =
  JNull
| JBool bool
| JInt int
| JStr string
| JArr "json list"
| JObj "(string \<times> json) list"

type_synonym pydict = "(string \<times> json) list"

text \<open>
  The exceptions the modelled code can raise or receive. \<open>HTTPError\<close> carries the status
  code of the response it was raised for; \<open>RequestException\<close> stands for the transport
  failures of the \<open>requests\<close> library that are not HTTP errors.
\<close>

datatype exn =
  ValueError string
| HTTPError nat
| RequestException string
| JSONDecodeError
| AttributeError
| TypeError
| KeyError string

text \<open>Truthiness of \<open>str | None\<close> and \<open>list | None\<close> arguments: \<open>None\<close> and the empty value are false.\<close>

fun truthy :: "'a list option \<Rightarrow> bool" where
  "truthy None = False"
| "truthy (Some xs) = (xs \<noteq> [])"

text \<open>
  \<open>str.lower()\<close>. Strings are byte strings: the ASCII letters are lowered and every other
  byte is left as it is, so the case folding of letters outside ASCII is outside the model.
\<close>

definition lower_chr :: "char \<Rightarrow> char" where
  "lower_chr c =
     (case map_of (zip ''ABCDEFGHIJKLMNOPQRSTUVWXYZ'' ''abcdefghijklmnopqrstuvwxyz'') c of
        None \<Rightarrow> c
      | Some d \<Rightarrow> d)"

definition lower :: "string \<Rightarrow> string" where
  "lower s = map lower_chr s"

text \<open>\<open>s.rstrip("/")\<close>.\<close>

definition rstrip_slash :: "string \<Rightarrow> string" where
  "rstrip_slash s = rev (dropWhile (\<lambda>c. c = CHR ''/'') (rev s))"

text \<open>\<open>sep.join(xs)\<close>.\<close>

fun join :: "string \<Rightarrow> string list \<Rightarrow> string" where
  "join sep [] = []"
| "join sep [x] = x"
| "join sep (x # y # ys) = x @ sep @ join sep (y # ys)"

text \<open>
  \<open>re.escape\<close> (Python 3.7 and later): a backslash before each of the special characters.
\<close>

definition re_special :: "char list" where
  "re_special = ''()[]{}?*+-|^$.&~# '' @ [CHR 0x5C, CHR 0x09, CHR 0x0A, CHR 0x0D, CHR 0x0B, CHR 0x0C]"

definition re_escape :: "string \<Rightarrow> string" where
  "re_escape s = concat (map (\<lambda>c. if c \<in> set re_special then [CHR 0x5C, c] else [c]) s)"

text \<open>Iterating a value (\<open>for x in v\<close>): a list gives its elements, a dict its keys, a string
  its characters; anything else is not iterable.\<close>

fun py_iter :: "json \<Rightarrow> exn + json list" where
  "py_iter (JArr xs) = Inr xs"
| "py_iter (JObj kv) = Inr (map (\<lambda>p. JStr (fst p)) kv)"
| "py_iter (JStr s) = Inr (map (\<lambda>c. JStr [c]) s)"
| "py_iter _ = Inl TypeError"

text \<open>\<open>len(v)\<close>.\<close>

fun py_len :: "json \<Rightarrow> exn + nat" where
  "py_len (JArr xs) = Inr (length xs)"
| "py_len (JObj kv) = Inr (length kv)"
| "py_len (JStr s) = Inr (length s)"
| "py_len _ = Inl TypeError"

text \<open>\<open>v.get(k)\<close> and \<open>v.get(k, default)\<close>: only a dict has the method.\<close>

fun py_get :: "json \<Rightarrow> string \<Rightarrow> exn + json option" where
  "py_get (JObj kv) k = Inr (map_of kv k)"
| "py_get _ k = Inl AttributeError"

fun py_get_default :: "json \<Rightarrow> string \<Rightarrow> json \<Rightarrow> exn + json" where
  "py_get_default (JObj kv) k d = Inr (case map_of kv k of None \<Rightarrow> d | Some v \<Rightarrow> v)"
| "py_get_default _ k d = Inl AttributeError"

text \<open>\<open>v[k]\<close> with a string key: a missing key of a dict is a \<open>KeyError\<close>, every other value
  refuses the subscript.\<close>

fun py_item :: "json \<Rightarrow> string \<Rightarrow> exn + json" where
  "py_item (JObj kv) k = (case map_of kv k of None \<Rightarrow> Inl (KeyError k) | Some v \<Rightarrow> Inr v)"
| "py_item _ k = Inl TypeError"

text \<open>Values usable as dict keys, and their equality as keys (\<open>True == 1\<close>, \<open>False == 0\<close>).\<close>

fun py_hashable :: "json \<Rightarrow> bool" where
  "py_hashable (JArr _) = False"
| "py_hashable (JObj _) = False"
| "py_hashable _ = True"

fun py_key :: "json \<Rightarrow> json" where
  "py_key (JBool b) = JInt (if b then 1 else 0)"
| "py_key v = v"

definition py_key_eq :: "json \<Rightarrow> json \<Rightarrow> bool" where
  "py_key_eq a b = (py_key a = py_key b)"

text \<open>An f-string, kept as its pieces: literal text, and values formatted by \<open>str()\<close>.\<close>

datatype frag = Lit string | Fmt json

section \<open>The API client (api.py)\<close>

text \<open>
  The settings are the six strings the client is built from (\<open>config.py\<close>; the server
  settings play no part here). Reading them from the environment is outside the model:
  the tools take the settings as loaded.
\<close>

record settings =
  amazing_marvin_api_key :: string
  amazing_marvin_full_access_token :: string
  amazing_marvin_db_uri :: string
  amazing_marvin_db_name :: string
  amazing_marvin_db_user :: string
  amazing_marvin_db_password :: string

record client =
  api_key :: string
  full_access_token :: string
  base_url :: string
  headers :: "(string \<times> string) list"
  full_access_headers :: "(string \<times> string) list"
  db_uri :: string
  db_name :: string
  db_user :: string
  db_password :: string

definition MarvinAPIClient ::
  "string \<Rightarrow> string \<Rightarrow> string \<Rightarrow> string \<Rightarrow> string \<Rightarrow> string \<Rightarrow> client" where
  "MarvinAPIClient key token uri name user password =
     \<lparr>api_key = key,
      full_access_token = token,
      base_url = ''https://serv.amazingmarvin.com/api'',
      headers = [(''X-API-Token'', key)],
      full_access_headers = [(''X-Full-Access-Token'', token)],
      db_uri = (if uri \<noteq> [] then rstrip_slash uri else []),
      db_name = name,
      db_user = user,
      db_password = password\<rparr>"

definition create_api_client :: "settings \<Rightarrow> client" where
  "create_api_client s =
     MarvinAPIClient (amazing_marvin_api_key s) (amazing_marvin_full_access_token s)
       (amazing_marvin_db_uri s) (amazing_marvin_db_name s)
       (amazing_marvin_db_user s) (amazing_marvin_db_password s)"

definition has_couchdb :: "client \<Rightarrow> bool" where
  "has_couchdb c = list_all (\<lambda>s. s \<noteq> []) [db_uri c, db_name c, db_user c, db_password c]"

subsection \<open>The HTTP transport\<close>

text \<open>
  A request as the \<open>requests\<close> library receives it. The body of a \<open>_find\<close> query holds the
  field projection as a set: the code builds it with \<open>list(set(fields) | {"_id"})\<close>, whose
  order Python does not fix.
\<close>

datatype payload =
  NoPayload
| JsonPayload "json option"
| FindPayload json "string set option" int

record request =
  meth :: string
  url :: string
  hdrs :: "(string \<times> string) list"
  auth :: "(string \<times> string) option"
  body :: payload

record response =
  status_code :: nat
  content :: string
  json_body :: "json option"

text \<open>
  The upstream services are a transition function on a state of the outside world: a
  request is answered by a response or by a transport failure (with its message), and
  the world moves on. \<open>sent\<close> logs every request issued, in order.
\<close>

type_synonym 'w transport = "request \<Rightarrow> 'w \<Rightarrow> (string + response) \<times> 'w"

record 'w net =
  world :: 'w
  sent :: "request list"

definition requests_send :: "'w transport \<Rightarrow> request \<Rightarrow> 'w net \<Rightarrow> (exn + response) \<times> 'w net" where
  "requests_send tr rq n =
     (case tr rq (world n) of
        (r, w') \<Rightarrow>
          ((case r of Inl msg \<Rightarrow> Inl (RequestException msg) | Inr resp \<Rightarrow> Inr resp),
           \<lparr>world = w', sent = sent n @ [rq]\<rparr>))"

text \<open>The requests a call issued: what it appended to the log.\<close>

definition issued :: "'w net \<Rightarrow> 'w net \<Rightarrow> request list" where
  "issued n n' = drop (length (sent n)) (sent n')"

text \<open>\<open>response.raise_for_status()\<close>: client and server error statuses raise.\<close>

definition raise_for_status :: "response \<Rightarrow> exn + unit" where
  "raise_for_status r =
     (if 400 \<le> status_code r \<and> status_code r < 600 then Inl (HTTPError (status_code r))
      else Inr ())"

text \<open>\<open>response.json()\<close>.\<close>

definition response_json :: "response \<Rightarrow> exn + json" where
  "response_json r = (case json_body r of None \<Rightarrow> Inl JSONDecodeError | Some j \<Rightarrow> Inr j)"

subsection \<open>find_docs\<close>

text \<open>The text of the \<open>ValueError\<close> raised without credentials (lines 86-89).\<close>

definition find_docs_message :: string where
  "find_docs_message =
     ''CouchDB credentials not configured. '' @
     ''Set AMAZING_MARVIN_DB_URI, _DB_NAME, _DB_USER, _DB_PASSWORD.''"

definition find_docs ::
  "'w transport \<Rightarrow> client \<Rightarrow> json \<Rightarrow> string list option \<Rightarrow> int \<Rightarrow> 'w net \<Rightarrow> (exn + json) \<times> 'w net" where
  "find_docs tr c selector flds limit n =
     (if \<not> has_couchdb c then
        (Inl (ValueError find_docs_message), n)
      else
        let url = db_uri c @ ''/'' @ db_name c @ ''/_find'';
            body = FindPayload selector
                     (if truthy flds then Some (set (the flds) \<union> {''_id''}) else None) limit
        in case requests_send tr
                  \<lparr>meth = ''post'', url = url, hdrs = [], auth = Some (db_user c, db_password c),
                   body = body\<rparr> n of
             (Inl e, n') \<Rightarrow> (Inl e, n')
           | (Inr resp, n') \<Rightarrow>
               (case raise_for_status resp of
                  Inl e \<Rightarrow> (Inl e, n')
                | Inr _ \<Rightarrow>
                    (case response_json resp of
                       Inl e \<Rightarrow> (Inl e, n')
                     | Inr j \<Rightarrow> (py_item j ''docs'', n'))))"

subsection \<open>_make_request and the endpoints built on it\<close>

definition make_request ::
  "'w transport \<Rightarrow> client \<Rightarrow> string \<Rightarrow> string \<Rightarrow> json option \<Rightarrow> 'w net \<Rightarrow> (exn + json) \<times> 'w net" where
  "make_request tr c method endpoint data n =
     (let url = base_url c @ endpoint; m = lower method in
      if m \<notin> {''get'', ''post'', ''put'', ''delete''} then
        (Inl (ValueError (''Unsupported HTTP method: '' @ method)), n)
      else
        case requests_send tr
               \<lparr>meth = m, url = url, hdrs = headers c, auth = None,
                body = (if m = ''post'' \<or> m = ''put'' then JsonPayload data else NoPayload)\<rparr> n of
          (Inl e, n') \<Rightarrow> (Inl e, n')
        | (Inr resp, n') \<Rightarrow>
            (case raise_for_status resp of
               Inl e \<Rightarrow> (Inl e, n')
             | Inr _ \<Rightarrow>
                 if status_code resp = 204 \<or> content resp = [] then (Inr (JObj []), n')
                 else (response_json resp, n')))"

definition get_labels :: "'w transport \<Rightarrow> client \<Rightarrow> 'w net \<Rightarrow> (exn + json) \<times> 'w net" where
  "get_labels tr c n = make_request tr c ''get'' ''/labels'' None n"

definition get_done_items ::
  "'w transport \<Rightarrow> client \<Rightarrow> string option \<Rightarrow> 'w net \<Rightarrow> (exn + json) \<times> 'w net" where
  "get_done_items tr c date n =
     make_request tr c ''get''
       (''/doneItems'' @ (if truthy date then ''?date='' @ the date else [])) None n"

definition get_children :: "'w transport \<Rightarrow> client \<Rightarrow> string \<Rightarrow> 'w net \<Rightarrow> (exn + json) \<times> 'w net" where
  "get_children tr c parent_id n =
     (case make_request tr c ''get'' (''/children?parentId='' @ parent_id) None n of
        (Inl (HTTPError status), n') \<Rightarrow>
          if status = 404 then (Inr (JArr []), n') else (Inl (HTTPError status), n')
      | r \<Rightarrow> r)"

definition mark_task_done ::
  "'w transport \<Rightarrow> client \<Rightarrow> string \<Rightarrow> int \<Rightarrow> 'w net \<Rightarrow> (exn + json) \<times> 'w net" where
  "mark_task_done tr c item_id timezone_offset n =
     make_request tr c ''post'' ''/markDone''
       (Some (JObj [(''itemId'', JStr item_id), (''timeZoneOffset'', JInt timezone_offset)])) n"

section \<open>The tools (main.py)\<close>

text \<open>
  Modelled from the spec: the response envelope (\<open>create_simple_response\<close> and
  \<open>create_error_response\<close> of \<open>tool_converter\<close>) is not among the sources; the spec
  describes it as success/error wrapping with timing metadata. A response is kept as the
  arguments the tool hands to the envelope: data, summary text, endpoint, number of API
  calls and the debug flag for a success; the exception, the endpoint and the debug flag
  for an error. The start time is left out.
\<close>

datatype 'd standard_response =
  SimpleResponse 'd "frag list" string json bool
| ErrorResponse exn string bool

text \<open>Truthiness of a value (\<open>if v:\<close>).\<close>

fun py_truth :: "json \<Rightarrow> bool" where
  "py_truth JNull = False"
| "py_truth (JBool b) = b"
| "py_truth (JInt i) = (i \<noteq> 0)"
| "py_truth (JStr s) = (s \<noteq> [])"
| "py_truth (JArr xs) = (xs \<noteq> [])"
| "py_truth (JObj kv) = (kv \<noteq> [])"

subsection \<open>query_tasks\<close>

record query_args =
  label :: "string option"
  req_fields :: "string list option"
  include_done :: bool
  contains :: "string option"
  due :: "string option"
  due_before :: "string option"
  due_after :: "string option"
  scheduled :: "string option"
  scheduled_before :: "string option"
  scheduled_after :: "string option"
  parent_id :: "string option"
  is_starred :: "bool option"
  debug :: bool

text \<open>
  \<open>next((lb for lb in labels if lb.get("title", "").lower() == label.lower()), None)\<close>:
  the first label whose title equals the name up to case; the search stops there, so a
  later malformed label is never looked at.
\<close>

fun find_label_match :: "json list \<Rightarrow> string \<Rightarrow> exn + json option" where
  "find_label_match [] name = Inr None"
| "find_label_match (lb # lbs) name =
     (case py_get_default lb ''title'' (JStr []) of
        Inl e \<Rightarrow> Inl e
      | Inr (JStr t) \<Rightarrow>
          if lower t = lower name then Inr (Some lb) else find_label_match lbs name
      | Inr _ \<Rightarrow> Inl AttributeError)"

text \<open>The text search clause (lines 333-339).\<close>

definition with_contains :: "string option \<Rightarrow> pydict \<Rightarrow> pydict" where
  "with_contains cs selector =
     (if truthy cs then
        let pattern = ''(?i)'' @ re_escape (the cs) in
        AList.update ''$or''
          (JArr [JObj [(''title'', JObj [(''$regex'', JStr pattern)])],
                 JObj [(''note'', JObj [(''$regex'', JStr pattern)])]]) selector
      else selector)"

text \<open>
  The date clauses (lines 341-361). The same code serves the due date (key \<open>dueDate\<close>)
  and the scheduled date (key \<open>day\<close>); \<open>with_date\<close> takes the key.
\<close>

definition date_filter :: "string option \<Rightarrow> string option \<Rightarrow> pydict" where
  "date_filter before after =
     (let f = [];
          f = (if truthy after then AList.update ''$gte'' (JStr (the after)) f else f);
          f = (if truthy before then AList.update ''$lte'' (JStr (the before)) f else f)
      in f)"

definition with_date ::
  "string \<Rightarrow> string option \<Rightarrow> string option \<Rightarrow> string option \<Rightarrow> pydict \<Rightarrow> pydict" where
  "with_date key exact before after selector =
     (if truthy exact then AList.update key (JStr (the exact)) selector
      else if truthy before \<or> truthy after then
        AList.update key (JObj (date_filter before after)) selector
      else selector)"

text \<open>The exact-match clauses (lines 363-367).\<close>

definition with_exact :: "string option \<Rightarrow> bool option \<Rightarrow> pydict \<Rightarrow> pydict" where
  "with_exact pid starred selector =
     (let selector = (if truthy pid then AList.update ''parentId'' (JStr (the pid)) selector
                      else selector)
      in case starred of
           None \<Rightarrow> selector
         | Some b \<Rightarrow> AList.update ''isStarred'' (JInt (if b then 1 else 0)) selector)"

text \<open>The selector the tool starts from (lines 307-310).\<close>

definition base_selector :: "bool \<Rightarrow> pydict" where
  "base_selector incl_done =
     (let selector = [(''db'', JStr ''Tasks'')]
      in if \<not> incl_done then AList.update ''done'' (JObj [(''$ne'', JBool True)]) selector
         else selector)"

text \<open>Everything the tool adds to the selector once the label is resolved.\<close>

definition finish_selector :: "query_args \<Rightarrow> pydict \<Rightarrow> pydict" where
  "finish_selector a selector =
     with_exact (parent_id a) (is_starred a)
       (with_date ''day'' (scheduled a) (scheduled_before a) (scheduled_after a)
         (with_date ''dueDate'' (due a) (due_before a) (due_after a)
           (with_contains (contains a) selector)))"

text \<open>
  \<open>[d for d in docs if d.get("type") not in ("project", "category")]\<close>
  (lines 372-375).
\<close>

fun keep_tasks :: "json list \<Rightarrow> exn + json list" where
  "keep_tasks [] = Inr []"
| "keep_tasks (d # ds) =
     (case py_get d ''type'' of
        Inl e \<Rightarrow> Inl e
      | Inr t \<Rightarrow>
          (case keep_tasks ds of
             Inl e \<Rightarrow> Inl e
           | Inr r \<Rightarrow>
               Inr (if t = Some (JStr ''project'') \<or> t = Some (JStr ''category'') then r
                    else d # r)))"

text \<open>\<open>sorted(set(fields) | {"_id"})\<close>.\<close>

definition fields_with_id :: "string list \<Rightarrow> string list" where
  "fields_with_id fs = sorted_list_of_set (set fs \<union> {''_id''})"

text \<open>The list of filters named in the summary (lines 387-408).\<close>

definition filter_desc :: "query_args \<Rightarrow> string" where
  "filter_desc a =
     (let filters =
        (if truthy (label a) then [''label='' @ [CHR 0x27] @ the (label a) @ [CHR 0x27]] else []) @
        (if truthy (contains a) then [''contains='' @ [CHR 0x27] @ the (contains a) @ [CHR 0x27]] else []) @
        (if truthy (due a) then [''due='' @ the (due a)] else []) @
        (if truthy (due_before a) then [''due<='' @ the (due_before a)] else []) @
        (if truthy (due_after a) then [''due>='' @ the (due_after a)] else []) @
        (if truthy (scheduled a) then [''scheduled='' @ the (scheduled a)] else []) @
        (if truthy (scheduled_before a) then [''scheduled<='' @ the (scheduled_before a)] else []) @
        (if truthy (scheduled_after a) then [''scheduled>='' @ the (scheduled_after a)] else []) @
        (if truthy (parent_id a) then [''parent='' @ the (parent_id a)] else []) @
        (case is_starred a of
           None \<Rightarrow> []
         | Some b \<Rightarrow> [''starred='' @ (if b then ''yes'' else ''no'')])
      in if filters \<noteq> [] then '' ('' @ join '', '' filters @ '')'' else [])"

text \<open>The text of the configuration error (lines 298-300).\<close>

definition query_tasks_message :: string where
  "query_tasks_message =
     ''CouchDB credentials not configured. '' @
     ''Set AMAZING_MARVIN_DB_URI, _DB_NAME, _DB_USER, _DB_PASSWORD '' @
     ''to use query_tasks. Use get_all_tasks as a fallback.''"

text \<open>The result and the response of a query that reached the store (lines 369-418).\<close>

definition query_result :: "query_args \<Rightarrow> json list \<Rightarrow> pydict" where
  "query_result a tasks =
     (let result = [(''tasks'', JArr tasks),
                    (''total_tasks'', JInt (int (length tasks))),
                    (''source'', JStr ''CouchDB _find query'')];
          result = (if truthy (req_fields a) then
                      AList.update ''fields_returned''
                        (JArr (map JStr (fields_with_id (the (req_fields a))))) result
                    else result);
          result = (if truthy (label a) then
                      AList.update ''label_filter'' (JStr (the (label a))) result
                    else result)
      in result)"

definition run_query ::
  "'w transport \<Rightarrow> client \<Rightarrow> query_args \<Rightarrow> pydict \<Rightarrow> int \<Rightarrow> 'w net \<Rightarrow>
     (exn + pydict standard_response) \<times> 'w net" where
  "run_query tr api_client a selector api_calls n =
     (case find_docs tr api_client (JObj selector) (req_fields a) 500 n of
        (Inl e, n') \<Rightarrow> (Inl e, n')
      | (Inr docs, n') \<Rightarrow>
          (case py_iter docs of
             Inl e \<Rightarrow> (Inl e, n')
           | Inr ds \<Rightarrow>
               (case keep_tasks ds of
                  Inl e \<Rightarrow> (Inl e, n')
                | Inr tasks \<Rightarrow>
                    (Inr (SimpleResponse (query_result a tasks)
                            [Lit ''Retrieved '', Fmt (JInt (int (length tasks))),
                             Lit ('' tasks via CouchDB'' @ filter_desc a)]
                            ''CouchDB _find'' (JInt (api_calls + 1)) (debug a)), n'))))"

text \<open>The body of the tool's \<open>try\<close> block (lines 293-418).\<close>

definition query_tasks_try ::
  "'w transport \<Rightarrow> settings \<Rightarrow> query_args \<Rightarrow> 'w net \<Rightarrow>
     (exn + pydict standard_response) \<times> 'w net" where
  "query_tasks_try tr st a n =
     (let api_client = create_api_client st in
      if \<not> has_couchdb api_client then
        (Inr (ErrorResponse (ValueError query_tasks_message) ''CouchDB _find'' (debug a)), n)
      else
        let selector = base_selector (include_done a)
        in if truthy (label a) then
             (case get_labels tr api_client n of
                (Inl e, n') \<Rightarrow> (Inl e, n')
              | (Inr labels, n') \<Rightarrow>
                  (case py_iter labels of
                     Inl e \<Rightarrow> (Inl e, n')
                   | Inr lbs \<Rightarrow>
                       (case find_label_match lbs (the (label a)) of
                          Inl e \<Rightarrow> (Inl e, n')
                        | Inr (Some label_match) \<Rightarrow>
                            if py_truth label_match then
                              (case py_item label_match ''_id'' of
                                 Inl e \<Rightarrow> (Inl e, n')
                               | Inr lid \<Rightarrow>
                                   run_query tr api_client a
                                     (finish_selector a
                                        (AList.update ''labelIds''
                                           (JObj [(''$elemMatch'', JObj [(''$eq'', lid)])])
                                           selector)) 1 n')
                            else
                              (Inr (SimpleResponse
                                     [(''tasks'', JArr []), (''total_tasks'', JInt 0)]
                                     [Lit (''No label found matching '' @ [CHR 0x27] @
                                           the (label a) @ [CHR 0x27])]
                                     ''CouchDB _find'' (JInt 1) (debug a)), n')
                        | Inr None \<Rightarrow>
                            (Inr (SimpleResponse
                                   [(''tasks'', JArr []), (''total_tasks'', JInt 0)]
                                   [Lit (''No label found matching '' @ [CHR 0x27] @
                                         the (label a) @ [CHR 0x27])]
                                   ''CouchDB _find'' (JInt 1) (debug a)), n'))))
           else run_query tr api_client a (finish_selector a selector) 0 n)"

text \<open>The tool: any exception of the body becomes an error response (lines 419-421).\<close>

definition query_tasks ::
  "'w transport \<Rightarrow> settings \<Rightarrow> query_args \<Rightarrow> 'w net \<Rightarrow> pydict standard_response \<times> 'w net" where
  "query_tasks tr st a n =
     (case query_tasks_try tr st a n of
        (Inl e, n') \<Rightarrow> (ErrorResponse e ''CouchDB _find'' (debug a), n')
      | (Inr r, n') \<Rightarrow> (r, n'))"

subsection \<open>get_all_tasks\<close>

text \<open>
  \<open>get_all_tasks_impl\<close> (module \<open>tasks\<close>) is not among the sources: the tool takes it as
  the parameter \<open>impl\<close>, a call that may use the network and returns a dict or raises.
\<close>

text \<open>\<open>[{k: v for k, v in task.items() if k in field_set} for task in result["tasks"]]\<close>.\<close>

fun project_tasks :: "string set \<Rightarrow> json list \<Rightarrow> exn + json list" where
  "project_tasks field_set [] = Inr []"
| "project_tasks field_set (task # ts) =
     (case task of
        JObj kv \<Rightarrow>
          (case project_tasks field_set ts of
             Inl e \<Rightarrow> Inl e
           | Inr r \<Rightarrow> Inr (JObj (filter (\<lambda>p. fst p \<in> field_set) kv) # r))
      | _ \<Rightarrow> Inl AttributeError)"

text \<open>The projection block (lines 221-228).\<close>

definition project_result :: "string list option \<Rightarrow> pydict \<Rightarrow> exn + pydict" where
  "project_result flds result =
     (if truthy flds \<and> map_of result ''tasks'' \<noteq> None then
        let field_set = set (the flds) \<union> {''_id''} in
        case py_iter (the (map_of result ''tasks'')) of
          Inl e \<Rightarrow> Inl e
        | Inr ts \<Rightarrow>
            (case project_tasks field_set ts of
               Inl e \<Rightarrow> Inl e
             | Inr projected \<Rightarrow>
                 Inr (AList.update ''fields_returned''
                        (JArr (map JStr (sorted_list_of_set field_set)))
                        (AList.update ''tasks'' (JArr projected) result)))
      else Inr result)"

definition get_all_tasks ::
  "(client \<Rightarrow> string option \<Rightarrow> 'w net \<Rightarrow> (exn + pydict) \<times> 'w net) \<Rightarrow> settings \<Rightarrow>
     string option \<Rightarrow> string list option \<Rightarrow> bool \<Rightarrow> 'w net \<Rightarrow> pydict standard_response \<times> 'w net" where
  "get_all_tasks impl st lbl flds dbg n =
     (case impl (create_api_client st) lbl n of
        (Inl e, n') \<Rightarrow> (ErrorResponse e ''/categories + /children'' dbg, n')
      | (Inr result, n') \<Rightarrow>
          (case project_result flds result of
             Inl e \<Rightarrow> (ErrorResponse e ''/categories + /children'' dbg, n')
           | Inr result \<Rightarrow>
               (SimpleResponse result
                  ([Lit ''Retrieved '',
                    Fmt (case map_of result ''total_tasks'' of None \<Rightarrow> JInt 0 | Some v \<Rightarrow> v),
                    Lit '' tasks across all projects''] @
                   (if truthy lbl then
                      [Lit ('' with label '' @ [CHR 0x27] @ the lbl @ [CHR 0x27])]
                    else []))
                  ''/categories + /children''
                  (case map_of result ''api_calls_made'' of None \<Rightarrow> JInt 5 | Some v \<Rightarrow> v)
                  dbg, n')))"

subsection \<open>batch_mark_done\<close>

text \<open>A failure entry \<open>{"task_id": task_id, "error": str(e)}\<close>; the text of the exception is
  kept as the exception.\<close>

record failed_task =
  task_id :: string
  error :: exn

record batch_result =
  completed_tasks :: "json list"
  failed_tasks :: "failed_task list"
  success_count :: nat
  failure_count :: nat
  total_requested :: nat

text \<open>The loop over \<open>task_ids\<close> (lines 1057-1062), with its two accumulators.\<close>

fun mark_each ::
  "'w transport \<Rightarrow> client \<Rightarrow> string list \<Rightarrow> json list \<Rightarrow> failed_task list \<Rightarrow> 'w net \<Rightarrow>
     (json list \<times> failed_task list) \<times> 'w net" where
  "mark_each tr c [] completed failed n = ((completed, failed), n)"
| "mark_each tr c (tid # rest) completed failed n =
     (case mark_task_done tr c tid 0 n of
        (Inl e, n') \<Rightarrow> mark_each tr c rest completed (failed @ [\<lparr>task_id = tid, error = e\<rparr>]) n'
      | (Inr completed_task, n') \<Rightarrow> mark_each tr c rest (completed @ [completed_task]) failed n')"

definition batch_mark_done ::
  "'w transport \<Rightarrow> settings \<Rightarrow> string list \<Rightarrow> bool \<Rightarrow> 'w net \<Rightarrow>
     batch_result standard_response \<times> 'w net" where
  "batch_mark_done tr st task_ids dbg n =
     (case mark_each tr (create_api_client st) task_ids [] [] n of
        ((completed, failed), n') \<Rightarrow>
          (SimpleResponse
             \<lparr>completed_tasks = completed,
              failed_tasks = failed,
              success_count = length completed,
              failure_count = length failed,
              total_requested = length task_ids\<rparr>
             [Lit ''Marked '', Fmt (JInt (int (length completed))), Lit '' of '',
              Fmt (JInt (int (length task_ids))), Lit '' tasks as done'']
             ''/markDone'' (JInt (int (length task_ids))) dbg, n'))"

subsection \<open>get_completed_tasks_for_date\<close>

text \<open>
  \<open>by_project\<close> is a dict keyed by parent identifiers, in insertion order.
  \<open>add_to_project\<close> is lines 1233-1235: a new key starts an empty group, and the item is
  appended to the group of its key.
\<close>

type_synonym groups = "(json \<times> json list) list"

fun add_to_project :: "json \<Rightarrow> json \<Rightarrow> groups \<Rightarrow> groups" where
  "add_to_project pid item [] = [(pid, [item])]"
| "add_to_project pid item ((k, g) # rest) =
     (if py_key_eq k pid then (k, g @ [item]) # rest
      else (k, g) # add_to_project pid item rest)"

text \<open>The loop over the completed items (lines 1227-1235); an unhashable parent identifier
  raises when it is looked up in \<open>by_project\<close>.\<close>

fun group_completed :: "json list \<Rightarrow> groups \<Rightarrow> json list \<Rightarrow> exn + groups \<times> json list" where
  "group_completed [] by_project unassigned = Inr (by_project, unassigned)"
| "group_completed (item # items) by_project unassigned =
     (case py_get_default item ''parentId'' (JStr ''unassigned'') of
        Inl e \<Rightarrow> Inl e
      | Inr pid \<Rightarrow>
          if pid = JStr ''unassigned'' then group_completed items by_project (unassigned @ [item])
          else if \<not> py_hashable pid then Inl TypeError
          else group_completed items (add_to_project pid item by_project) unassigned)"

record completed_result =
  date :: string
  total_completed :: nat
  completed_by_project :: groups
  unassigned_completed :: "json list"
  project_count :: nat
  unassigned_count :: nat
  all_completed :: json
  source :: string

definition get_completed_tasks_for_date_try ::
  "'w transport \<Rightarrow> settings \<Rightarrow> string \<Rightarrow> bool \<Rightarrow> 'w net \<Rightarrow>
     (exn + completed_result standard_response) \<times> 'w net" where
  "get_completed_tasks_for_date_try tr st d dbg n =
     (case get_done_items tr (create_api_client st) (Some d) n of
        (Inl e, n') \<Rightarrow> (Inl e, n')
      | (Inr completed_items, n') \<Rightarrow>
          (case py_iter completed_items of
             Inl e \<Rightarrow> (Inl e, n')
           | Inr items \<Rightarrow>
               (case group_completed items [] [] of
                  Inl e \<Rightarrow> (Inl e, n')
                | Inr (by_project, unassigned) \<Rightarrow>
                    (case py_len completed_items of
                       Inl e \<Rightarrow> (Inl e, n')
                     | Inr cnt \<Rightarrow>
                         (Inr (SimpleResponse
                                \<lparr>date = d,
                                 total_completed = cnt,
                                 completed_by_project = by_project,
                                 unassigned_completed = unassigned,
                                 project_count = length by_project,
                                 unassigned_count = length unassigned,
                                 all_completed = completed_items,
                                 source = ''Efficiently filtered from /doneItems?date='' @ d\<rparr>
                                [Lit ''Retrieved '', Fmt (JInt (int cnt)),
                                 Lit ('' completed tasks for '' @ d)]
                                ''/doneItems'' (JInt 1) dbg), n')))))"

definition get_completed_tasks_for_date ::
  "'w transport \<Rightarrow> settings \<Rightarrow> string \<Rightarrow> bool \<Rightarrow> 'w net \<Rightarrow>
     completed_result standard_response \<times> 'w net" where
  "get_completed_tasks_for_date tr st d dbg n =
     (case get_completed_tasks_for_date_try tr st d dbg n of
        (Inl e, n') \<Rightarrow> (ErrorResponse e ''/doneItems'' dbg, n')
      | (Inr r, n') \<Rightarrow> (r, n'))"

section \<open>Vocabulary of the statements\<close>

text \<open>
  The request \<open>_make_request\<close> issues for a method and an endpoint, the way it reads the
  answer, and the state of the network after a request.
\<close>

definition api_request :: "client \<Rightarrow> string \<Rightarrow> string \<Rightarrow> payload \<Rightarrow> request" where
  "api_request c m endpoint p =
     \<lparr>meth = m, url = base_url c @ endpoint, hdrs = headers c, auth = None, body = p\<rparr>"

definition api_reply :: "string + response \<Rightarrow> exn + json" where
  "api_reply r =
     (case r of
        Inl msg \<Rightarrow> Inl (RequestException msg)
      | Inr resp \<Rightarrow>
          if 400 \<le> status_code resp \<and> status_code resp < 600 then
            Inl (HTTPError (status_code resp))
          else if status_code resp = 204 \<or> content resp = [] then Inr (JObj [])
          else (case json_body resp of None \<Rightarrow> Inl JSONDecodeError | Some j \<Rightarrow> Inr j))"

definition net_after :: "'w transport \<Rightarrow> request \<Rightarrow> 'w net \<Rightarrow> 'w net" where
  "net_after tr rq n = \<lparr>world = snd (tr rq (world n)), sent = sent n @ [rq]\<rparr>"

text \<open>The same for the store query of \<open>find_docs\<close>.\<close>

definition find_request :: "client \<Rightarrow> json \<Rightarrow> string list option \<Rightarrow> int \<Rightarrow> request" where
  "find_request c selector flds limit =
     \<lparr>meth = ''post'', url = db_uri c @ ''/'' @ db_name c @ ''/_find'', hdrs = [],
      auth = Some (db_user c, db_password c),
      body = FindPayload selector
               (if truthy flds then Some (set (the flds) \<union> {''_id''}) else None) limit\<rparr>"

definition find_reply :: "string + response \<Rightarrow> exn + json" where
  "find_reply r =
     (case r of
        Inl msg \<Rightarrow> Inl (RequestException msg)
      | Inr resp \<Rightarrow>
          if 400 \<le> status_code resp \<and> status_code resp < 600 then
            Inl (HTTPError (status_code resp))
          else (case json_body resp of
                  None \<Rightarrow> Inl JSONDecodeError
                | Some j \<Rightarrow> py_item j ''docs''))"

text \<open>The selector after a label was resolved to the identifier \<open>lid\<close> (line 322).\<close>

definition label_selector :: "bool \<Rightarrow> json \<Rightarrow> pydict" where
  "label_selector incl lid =
     AList.update ''labelIds'' (JObj [(''$elemMatch'', JObj [(''$eq'', lid)])])
       (base_selector incl)"

text \<open>One bound of a range clause: present when the argument is given and not empty.\<close>

definition bound :: "string \<Rightarrow> string option \<Rightarrow> pydict" where
  "bound opr v = (if truthy v then [(opr, JStr (the v))] else [])"



text \<open>
  \<open>names_setting name msg\<close>: the text \<open>msg\<close> contains \<open>name\<close>. The settings a message
  names, and the store settings that are not configured.
\<close>

fun names_setting :: "string \<Rightarrow> string \<Rightarrow> bool" where
  "names_setting name [] = (name = [])"
| "names_setting name (c # cs) =
     (take (length name) (c # cs) = name \<or> names_setting name cs)"

definition settings_named :: "string \<Rightarrow> string list" where
  "settings_named msg =
     filter (\<lambda>s. names_setting s msg) [''_DB_URI'', ''_DB_NAME'', ''_DB_USER'', ''_DB_PASSWORD'']"

definition missing_settings :: "settings \<Rightarrow> string list" where
  "missing_settings st =
     (if amazing_marvin_db_uri st = [] then [''_DB_URI''] else []) @
     (if amazing_marvin_db_name st = [] then [''_DB_NAME''] else []) @
     (if amazing_marvin_db_user st = [] then [''_DB_USER''] else []) @
     (if amazing_marvin_db_password st = [] then [''_DB_PASSWORD''] else [])"

text \<open>
  The attempts of \<open>batch_mark_done\<close>, told apart from its accumulators: every identifier
  in turn is handed to \<open>mark_task_done\<close>, whatever the earlier outcomes were, and paired
  with its outcome. \<open>successes\<close> and \<open>failures\<close> read the two kinds of outcome off that
  list; \<open>mark_request\<close> is the request one attempt issues.
\<close>

fun mark_attempts ::
  "'w transport \<Rightarrow> client \<Rightarrow> string list \<Rightarrow> 'w net \<Rightarrow> (string \<times> (exn + json)) list \<times> 'w net" where
  "mark_attempts tr c [] n = ([], n)"
| "mark_attempts tr c (tid # rest) n =
     (case mark_task_done tr c tid 0 n of
        (r, n1) \<Rightarrow> (case mark_attempts tr c rest n1 of (rs, n2) \<Rightarrow> ((tid, r) # rs, n2)))"

fun successes :: "(string \<times> (exn + json)) list \<Rightarrow> json list" where
  "successes [] = []"
| "successes ((t, Inr j) # outs) = j # successes outs"
| "successes ((t, Inl e) # outs) = successes outs"

fun failures :: "(string \<times> (exn + json)) list \<Rightarrow> failed_task list" where
  "failures [] = []"
| "failures ((t, Inl e) # outs) = \<lparr>task_id = t, error = e\<rparr> # failures outs"
| "failures ((t, Inr j) # outs) = failures outs"

definition mark_request :: "client \<Rightarrow> string \<Rightarrow> request" where
  "mark_request c tid =
     \<lparr>meth = ''post'', url = base_url c @ ''/markDone'', hdrs = headers c, auth = None,
      body = JsonPayload (Some (JObj [(''itemId'', JStr tid), (''timeZoneOffset'', JInt 0)]))\<rparr>"

text \<open>
  The parent reference of a completed item; an item is unparented when it has none or
  the sentinel. \<open>child_of k it\<close>: the item has a proper parent, equal as a dict key to \<open>k\<close>.
  \<open>group_of\<close> looks a key up in the groups; \<open>group_keys\<close> and \<open>group_sizes\<close> are the keys
  (up to key equality) and the number of grouped items.
\<close>

fun parent_ref :: "json \<Rightarrow> json option" where
  "parent_ref (JObj kv) = map_of kv ''parentId''"
| "parent_ref _ = None"

definition unparented :: "json \<Rightarrow> bool" where
  "unparented it = (parent_ref it = None \<or> parent_ref it = Some (JStr ''unassigned''))"

definition child_of :: "json \<Rightarrow> json \<Rightarrow> bool" where
  "child_of k it =
     (case parent_ref it of
        None \<Rightarrow> False
      | Some p \<Rightarrow> p \<noteq> JStr ''unassigned'' \<and> py_key_eq k p)"

fun group_of :: "groups \<Rightarrow> json \<Rightarrow> json list" where
  "group_of [] k = []"
| "group_of ((k', g) # rest) k = (if py_key_eq k' k then g else group_of rest k)"

definition group_keys :: "groups \<Rightarrow> json list" where
  "group_keys bp = map (\<lambda>p. py_key (fst p)) bp"

definition group_sizes :: "groups \<Rightarrow> nat" where
  "group_sizes bp = sum_list (map (\<lambda>p. length (snd p)) bp)"

text \<open>A completed item as the upstream documents it: a dict whose parent reference, when
  present, can be a dict key.\<close>

fun hashable_parent :: "json \<Rightarrow> bool" where
  "hashable_parent (JObj kv) =
     (case map_of kv ''parentId'' of None \<Rightarrow> True | Some p \<Rightarrow> py_hashable p)"
| "hashable_parent _ = False"

section \<open>Concrete inputs\<close>

text \<open>Settings with and without the store password; the URI ends in a slash.\<close>

definition st_full :: settings where
  "st_full =
     \<lparr>amazing_marvin_api_key = ''key'', amazing_marvin_full_access_token = [],
      amazing_marvin_db_uri = ''https://db.example/'', amazing_marvin_db_name = ''marvin'',
      amazing_marvin_db_user = ''reader'', amazing_marvin_db_password = ''secret''\<rparr>"

definition st_no_password :: settings where
  "st_no_password = st_full\<lparr>amazing_marvin_db_password := []\<rparr>"

definition plain_args :: query_args where
  "plain_args =
     \<lparr>label = None, req_fields = None, include_done = False, contains = None, due = None,
      due_before = None, due_after = None, scheduled = None, scheduled_before = None,
      scheduled_after = None, parent_id = None, is_starred = None, debug = False\<rparr>"

definition due_args :: query_args where
  "due_args =
     plain_args\<lparr>due := Some ''2024-05-01'', due_before := Some ''2024-06-01'',
       scheduled_after := Some ''2024-04-01''\<rparr>"

definition fresh :: "unit net" where
  "fresh = \<lparr>world = (), sent = []\<rparr>"

definition ok_json :: "json \<Rightarrow> response" where
  "ok_json j = \<lparr>status_code = 200, content = ''json'', json_body = Some j\<rparr>"

definition work_label :: json where
  "work_label = JObj [(''_id'', JStr ''L1''), (''title'', JStr ''Work'')]"

definition task_a :: json where
  "task_a =
     JObj [(''_id'', JStr ''t1''), (''title'', JStr ''Write report''), (''done'', JBool True)]"

definition project_p :: json where
  "project_p =
     JObj [(''_id'', JStr ''p1''), (''title'', JStr ''Reports''), (''type'', JStr ''project'')]"

text \<open>
  An upstream that knows one label, and whose store answers every query with one
  completed task and one project. A second one that is unreachable.
\<close>

definition marvin :: "unit transport" where
  "marvin rq w =
     (if meth rq = ''get'' then (Inr (ok_json (JArr [work_label])), w)
      else case body rq of
             FindPayload s f l \<Rightarrow>
               (Inr (ok_json (JObj [(''docs'', JArr [task_a, project_p])])), w)
           | _ \<Rightarrow> (Inr (ok_json (JObj [])), w))"

definition offline :: "unit transport" where
  "offline rq w = (Inl ''connection refused'', w)"

text \<open>An upstream that answers every request with the given error status.\<close>

definition failing :: "nat \<Rightarrow> unit transport" where
  "failing code rq w = (Inr \<lparr>status_code = code, content = ''error'', json_body = None\<rparr>, w)"

text \<open>An upstream that refuses to mark the task "bad" and accepts every other one.\<close>

definition picky :: "unit transport" where
  "picky rq w =
     (if body rq = JsonPayload (Some (JObj [(''itemId'', JStr ''bad''),
                                            (''timeZoneOffset'', JInt 0)]))
      then (Inr \<lparr>status_code = 500, content = ''error'', json_body = None\<rparr>, w)
      else (Inr (ok_json (JObj [(''ok'', JBool True)])), w))"

text \<open>Four completed items: two of project p1, one without parent, one with the sentinel.\<close>

definition item_1 :: json where
  "item_1 = JObj [(''_id'', JStr ''a''), (''parentId'', JStr ''p1'')]"

definition item_2 :: json where
  "item_2 = JObj [(''_id'', JStr ''b'')]"

definition item_3 :: json where
  "item_3 = JObj [(''_id'', JStr ''c''), (''parentId'', JStr ''unassigned'')]"

definition item_4 :: json where
  "item_4 = JObj [(''_id'', JStr ''d''), (''parentId'', JStr ''p1'')]"

definition history :: "unit transport" where
  "history rq w = (Inr (ok_json (JArr [item_1, item_2, item_3, item_4])), w)"

text \<open>A stand-in for \<open>get_all_tasks_impl\<close> that finds one task and uses no network.\<close>

definition task_b :: json where
  "task_b = JObj [(''title'', JStr ''Plan''), (''_id'', JStr ''t2''), (''note'', JStr ''soon'')]"

definition listing :: "client \<Rightarrow> string option \<Rightarrow> unit net \<Rightarrow> (exn + pydict) \<times> unit net" where
  "listing c lbl n =
     (Inr [(''tasks'', JArr [task_b]), (''total_tasks'', JInt 1), (''api_calls_made'', JInt 3)], n)"

section \<open>The requests a call issues\<close>

lemma requests_send_eq:
  "requests_send tr rq n =
     ((case fst (tr rq (world n)) of
         Inl m \<Rightarrow> Inl (RequestException m)
       | Inr resp \<Rightarrow> Inr resp),
      net_after tr rq n)"
  by (simp add: requests_send_def net_after_def split: prod.splits)

lemma lower_get: "lower ''get'' = ''get''"
  by (simp add: lower_def lower_chr_def)

lemma lower_post: "lower ''post'' = ''post''"
  by (simp add: lower_def lower_chr_def)

lemma make_request_get:
  "make_request tr c ''get'' endpoint d n =
     (api_reply (fst (tr (api_request c ''get'' endpoint NoPayload) (world n))),
      net_after tr (api_request c ''get'' endpoint NoPayload) n)"
  by (simp add: make_request_def lower_get requests_send_eq api_request_def api_reply_def
      raise_for_status_def response_json_def Let_def split: sum.splits)

lemma make_request_post:
  "make_request tr c ''post'' endpoint d n =
     (api_reply (fst (tr (api_request c ''post'' endpoint (JsonPayload d)) (world n))),
      net_after tr (api_request c ''post'' endpoint (JsonPayload d)) n)"
  by (simp add: make_request_def lower_post requests_send_eq api_request_def api_reply_def
      raise_for_status_def response_json_def Let_def split: sum.splits)

lemma find_docs_configured:
  assumes "has_couchdb c"
  shows "find_docs tr c selector flds limit n =
     (find_reply (fst (tr (find_request c selector flds limit) (world n))),
      net_after tr (find_request c selector flds limit) n)"
proof -
  obtain r w where t: "tr (find_request c selector flds limit) (world n) = (r, w)"
    by (cases "tr (find_request c selector flds limit) (world n)")
  show ?thesis
    using assms t
    by (cases r)
      (auto simp: find_docs_def requests_send_def find_request_def find_reply_def
        raise_for_status_def response_json_def net_after_def split: option.splits)
qed

lemma issued_same: "issued n n = []"
  by (simp add: issued_def)

lemma issued_net_after: "issued n (net_after tr rq n) = [rq]"
  by (simp add: issued_def net_after_def)

lemma issued_net_after2: "issued n (net_after tr rq2 (net_after tr rq1 n)) = [rq1, rq2]"
  by (simp add: issued_def net_after_def)

lemma run_query_net:
  "has_couchdb c \<Longrightarrow> run_query tr c a sel k n = (r, n') \<Longrightarrow>
   n' = net_after tr (find_request c (JObj sel) (req_fields a) 500) n"
  by (auto simp: run_query_def find_docs_configured split: sum.splits)

text \<open>
  A call of \<open>query_tasks\<close> issues nothing, or the label lookup alone, or the store query
  alone (no label given), or the label lookup followed by the store query.
\<close>

lemma query_tasks_issued:
  assumes "query_tasks tr st a n = (r, n')"
  shows "issued n n' = [] \<or>
         issued n n' = [api_request (create_api_client st) ''get'' ''/labels'' NoPayload] \<or>
         (\<not> truthy (label a) \<and>
          issued n n' =
            [find_request (create_api_client st)
               (JObj (finish_selector a (base_selector (include_done a)))) (req_fields a) 500]) \<or>
         (\<exists>lid. truthy (label a) \<and>
            issued n n' =
              [api_request (create_api_client st) ''get'' ''/labels'' NoPayload,
               find_request (create_api_client st)
                 (JObj (finish_selector a (label_selector (include_done a) lid)))
                 (req_fields a) 500])"
proof (cases "has_couchdb (create_api_client st)")
  case False
  with assms have "n' = n"
    by (simp add: query_tasks_def query_tasks_try_def)
  then show ?thesis by (simp add: issued_same)
next
  case True
  show ?thesis
  proof (cases "truthy (label a)")
    case False
    with True assms obtain x where "run_query tr (create_api_client st) a
        (finish_selector a (base_selector (include_done a))) 0 n = (x, n')"
      by (auto simp: query_tasks_def query_tasks_try_def Let_def split: prod.splits sum.splits)
    from run_query_net [OF True this] False show ?thesis
      by (simp add: issued_net_after)
  next
    case lab: True
    let ?n1 = "net_after tr (api_request (create_api_client st) ''get'' ''/labels'' NoPayload) n"
    from True lab assms have "n' = ?n1 \<or>
        (\<exists>lid x. run_query tr (create_api_client st) a
            (finish_selector a (label_selector (include_done a) lid)) 1 ?n1 = (x, n'))"
      by (auto simp: query_tasks_def query_tasks_try_def get_labels_def make_request_get
          label_selector_def Let_def
          split: prod.splits sum.splits option.splits if_splits)
    then show ?thesis
    proof
      assume "n' = ?n1"
      then show ?thesis by (simp add: issued_net_after)
    next
      assume "\<exists>lid x. run_query tr (create_api_client st) a
            (finish_selector a (label_selector (include_done a) lid)) 1 ?n1 = (x, n')"
      then obtain lid x where "run_query tr (create_api_client st) a
            (finish_selector a (label_selector (include_done a) lid)) 1 ?n1 = (x, n')"
        by blast
      from run_query_net [OF True this] lab show ?thesis
        by (auto simp: issued_net_after2)
    qed
  qed
qed

section \<open>The selector\<close>

lemma date_filter_bounds:
  "date_filter before after = bound ''$gte'' after @ bound ''$lte'' before"
  by (simp add: date_filter_def bound_def)

lemma map_of_with_contains:
  "k \<noteq> ''$or'' \<Longrightarrow> map_of (with_contains cs sel) k = map_of sel k"
  by (simp add: with_contains_def update_conv' Let_def)

lemma map_of_with_exact:
  "k \<noteq> ''parentId'' \<Longrightarrow> k \<noteq> ''isStarred'' \<Longrightarrow>
   map_of (with_exact p s sel) k = map_of sel k"
  by (simp add: with_exact_def update_conv' Let_def split: option.splits)

lemma map_of_with_date:
  "map_of (with_date key exact before after sel) k =
     (if k = key \<and> truthy exact then Some (JStr (the exact))
      else if k = key \<and> (truthy before \<or> truthy after) then
        Some (JObj (date_filter before after))
      else map_of sel k)"
  by (simp add: with_date_def update_conv')

lemma map_of_finish_done:
  "map_of (finish_selector a sel) ''done'' = map_of sel ''done''"
  by (simp add: finish_selector_def map_of_with_exact map_of_with_date map_of_with_contains)

lemma map_of_finish_dueDate:
  "map_of (finish_selector a sel) ''dueDate'' =
     (if truthy (due a) then Some (JStr (the (due a)))
      else if truthy (due_before a) \<or> truthy (due_after a) then
        Some (JObj (date_filter (due_before a) (due_after a)))
      else map_of sel ''dueDate'')"
  by (simp add: finish_selector_def map_of_with_exact map_of_with_date map_of_with_contains)

lemma map_of_finish_day:
  "map_of (finish_selector a sel) ''day'' =
     (if truthy (scheduled a) then Some (JStr (the (scheduled a)))
      else if truthy (scheduled_before a) \<or> truthy (scheduled_after a) then
        Some (JObj (date_filter (scheduled_before a) (scheduled_after a)))
      else map_of sel ''day'')"
  by (simp add: finish_selector_def map_of_with_exact map_of_with_date map_of_with_contains)

lemma map_of_base_selector:
  "map_of (base_selector incl) k =
     (if k = ''db'' then Some (JStr ''Tasks'')
      else if k = ''done'' \<and> \<not> incl then Some (JObj [(''$ne'', JBool True)])
      else None)"
  by (simp add: base_selector_def Let_def)

lemma map_of_label_selector:
  "k \<noteq> ''labelIds'' \<Longrightarrow> map_of (label_selector incl lid) k = map_of (base_selector incl) k"
  by (simp add: label_selector_def update_conv')

text \<open>
  Whatever store query a call issues, its selector is the finished form of the base
  selector, with at most a label clause added.
\<close>

lemma query_tasks_find_selector:
  assumes "query_tasks tr st a n = (r, n')" and "rq \<in> set (issued n n')"
    and "body rq = FindPayload s fs lim"
  shows "\<exists>sel0. s = JObj (finish_selector a sel0) \<and>
           (\<forall>k. k \<noteq> ''labelIds'' \<longrightarrow>
              map_of sel0 k = map_of (base_selector (include_done a)) k)"
proof -
  let ?c = "create_api_client st"
  let ?lab = "api_request ?c ''get'' ''/labels'' NoPayload"
  have lab: "body ?lab \<noteq> FindPayload s fs lim"
    by (simp add: api_request_def)
  from query_tasks_issued [OF assms(1)]
  consider "issued n n' = []" | "issued n n' = [?lab]"
    | "issued n n' = [find_request ?c
          (JObj (finish_selector a (base_selector (include_done a)))) (req_fields a) 500]"
    | lid where "issued n n' = [?lab, find_request ?c
          (JObj (finish_selector a (label_selector (include_done a) lid))) (req_fields a) 500]"
    by blast
  then show ?thesis
  proof cases
    case 1
    with assms(2) show ?thesis by simp
  next
    case 2
    with assms(2,3) lab show ?thesis by simp
  next
    case 3
    with assms(2,3) have "s = JObj (finish_selector a (base_selector (include_done a)))"
      by (simp add: find_request_def)
    then show ?thesis by blast
  next
    case 4
    with assms(2,3) lab
    have "s = JObj (finish_selector a (label_selector (include_done a) lid))"
      by (auto simp: find_request_def)
    then show ?thesis
      using map_of_label_selector by blast
  qed
qed

section \<open>The label lookup and the post-filter\<close>


lemma keep_tasks_filter:
  "keep_tasks ds = Inr ts \<Longrightarrow>
   (\<forall>d\<in>set ds. \<exists>kv. d = JObj kv) \<and>
   ts = filter (\<lambda>d. \<forall>kv. d = JObj kv \<longrightarrow>
          map_of kv ''type'' \<noteq> Some (JStr ''project'') \<and>
          map_of kv ''type'' \<noteq> Some (JStr ''category'')) ds"
proof (induction ds arbitrary: ts)
  case Nil
  then show ?case by simp
next
  case (Cons d ds)
  from Cons.prems obtain kv where d: "d = JObj kv"
    by (cases d) auto
  from Cons.prems d obtain r where r: "keep_tasks ds = Inr r"
    by (auto split: sum.splits)
  from Cons.IH [OF r] Cons.prems d r show ?case
    by (auto split: if_splits)
qed

lemma keep_tasks_no_container:
  assumes "keep_tasks ds = Inr ts" and "t \<in> set ts"
  shows "\<exists>kv. t = JObj kv \<and> map_of kv ''type'' \<noteq> Some (JStr ''project'') \<and>
           map_of kv ''type'' \<noteq> Some (JStr ''category'')"
proof -
  from keep_tasks_filter [OF assms(1)] assms(2)
  have "t \<in> set ds" and "\<forall>kv. t = JObj kv \<longrightarrow>
          map_of kv ''type'' \<noteq> Some (JStr ''project'') \<and>
          map_of kv ''type'' \<noteq> Some (JStr ''category'')"
    and "\<exists>kv. t = JObj kv"
    by auto
  then show ?thesis by blast
qed


lemma run_query_data:
  assumes "run_query tr c a sel k n = (Inr (SimpleResponse data s e cnt d), n')"
  shows "\<exists>docs ds tasks. find_docs tr c (JObj sel) (req_fields a) 500 n = (Inr docs, n') \<and>
           py_iter docs = Inr ds \<and> keep_tasks ds = Inr tasks \<and> data = query_result a tasks"
  using assms by (auto simp: run_query_def split: prod.splits sum.splits)

text \<open>
  The data of a successful response is either the short-circuit of an unknown label, or
  the result built from the post-filtered documents of the store.
\<close>

lemma query_tasks_data:
  assumes "query_tasks tr st a n = (SimpleResponse data s e cnt d, n')"
  shows "data = [(''tasks'', JArr []), (''total_tasks'', JInt 0)] \<or>
         (\<exists>sel n0 docs ds tasks.
            find_docs tr (create_api_client st) (JObj sel) (req_fields a) 500 n0 =
              (Inr docs, n') \<and>
            py_iter docs = Inr ds \<and> keep_tasks ds = Inr tasks \<and> data = query_result a tasks)"
proof -
  from assms have "data = [(''tasks'', JArr []), (''total_tasks'', JInt 0)] \<or>
     (\<exists>sel k n0. run_query tr (create_api_client st) a sel k n0 =
        (Inr (SimpleResponse data s e cnt d), n'))"
    by (auto simp: query_tasks_def query_tasks_try_def Let_def
        split: prod.splits sum.splits option.splits if_splits)
  then show ?thesis
  proof
    assume "data = [(''tasks'', JArr []), (''total_tasks'', JInt 0)]"
    then show ?thesis ..
  next
    assume "\<exists>sel k n0. run_query tr (create_api_client st) a sel k n0 =
        (Inr (SimpleResponse data s e cnt d), n')"
    then obtain sel k n0 where "run_query tr (create_api_client st) a sel k n0 =
        (Inr (SimpleResponse data s e cnt d), n')"
      by blast
    from run_query_data [OF this] show ?thesis
      by blast
  qed
qed


section \<open>Credentials\<close>

lemma missing_no_couchdb:
  "missing_settings st \<noteq> [] \<Longrightarrow> \<not> has_couchdb (create_api_client st)"
  by (auto simp: missing_settings_def has_couchdb_def create_api_client_def
      MarvinAPIClient_def split: if_splits)

lemma settings_named_query:
  "settings_named query_tasks_message = [''_DB_URI'', ''_DB_NAME'', ''_DB_USER'', ''_DB_PASSWORD'']"
  by (simp add: settings_named_def query_tasks_message_def)

lemma names_fallback: "names_setting ''get_all_tasks'' query_tasks_message"
  by (simp add: query_tasks_message_def)

lemmas example_defs =
  st_full_def st_no_password_def plain_args_def due_args_def fresh_def ok_json_def
  work_label_def task_a_def project_p_def marvin_def offline_def failing_def picky_def
  item_1_def item_2_def item_3_def item_4_def history_def task_b_def listing_def

lemmas eval_defs =
  query_tasks_def query_tasks_try_def create_api_client_def MarvinAPIClient_def
  has_couchdb_def rstrip_slash_def base_selector_def run_query_def find_docs_def
  requests_send_def raise_for_status_def response_json_def finish_selector_def
  with_contains_def with_date_def with_exact_def date_filter_def issued_def
  query_result_def filter_desc_def get_labels_def make_request_def lower_def lower_chr_def
  fields_with_id_def find_request_def api_request_def Let_def

section \<open>The loop of batch_mark_done\<close>

lemma mark_task_done_net:
  "mark_task_done tr c tid 0 n = (r, n1) \<Longrightarrow> sent n1 = sent n @ [mark_request c tid]"
  by (auto simp: mark_task_done_def make_request_post net_after_def mark_request_def api_request_def)

lemma mark_attempts_sent:
  "mark_attempts tr c ids n = (outs, n2) \<Longrightarrow>
   map fst outs = ids \<and> sent n2 = sent n @ map (mark_request c) ids"
proof (induction ids arbitrary: n outs n2)
  case Nil
  then show ?case by simp
next
  case (Cons tid rest)
  obtain r n1 where 1: "mark_task_done tr c tid 0 n = (r, n1)"
    by (cases "mark_task_done tr c tid 0 n")
  obtain rs n3 where 2: "mark_attempts tr c rest n1 = (rs, n3)"
    by (cases "mark_attempts tr c rest n1")
  from Cons.prems 1 2 have "outs = (tid, r) # rs" "n2 = n3"
    by simp_all
  with Cons.IH [OF 2] mark_task_done_net [OF 1] show ?case
    by simp
qed

lemma mark_each_attempts:
  "mark_attempts tr c ids n = (outs, n2) \<Longrightarrow>
   mark_each tr c ids completed failed n =
     ((completed @ successes outs, failed @ failures outs), n2)"
proof (induction ids arbitrary: n outs n2 completed failed)
  case Nil
  then show ?case by simp
next
  case (Cons tid rest)
  obtain r n1 where 1: "mark_task_done tr c tid 0 n = (r, n1)"
    by (cases "mark_task_done tr c tid 0 n")
  obtain rs n3 where 2: "mark_attempts tr c rest n1 = (rs, n3)"
    by (cases "mark_attempts tr c rest n1")
  from Cons.prems 1 2 have o: "outs = (tid, r) # rs" "n2 = n3"
    by simp_all
  show ?case
  proof (cases r)
    case (Inl e)
    with 1 o Cons.IH [OF 2] show ?thesis by simp
  next
    case (Inr j)
    with 1 o Cons.IH [OF 2] show ?thesis by simp
  qed
qed

lemma length_successes_failures:
  "length (successes outs) + length (failures outs) = length outs"
  by (induction outs rule: successes.induct) simp_all

section \<open>The grouping of completed items\<close>

lemma group_of_add:
  "group_of (add_to_project p it bp) k =
     (if py_key_eq p k then group_of bp k @ [it] else group_of bp k)"
  by (induction bp) (auto simp: py_key_eq_def)

lemma group_keys_simps:
  "group_keys [] = []"
  "group_keys ((k, g) # bp) = py_key k # group_keys bp"
  by (simp_all add: group_keys_def)

lemma group_sizes_simps:
  "group_sizes [] = 0"
  "group_sizes ((k, g) # bp) = length g + group_sizes bp"
  by (simp_all add: group_sizes_def)

lemma set_group_keys_add:
  "set (group_keys (add_to_project p it bp)) = insert (py_key p) (set (group_keys bp))"
proof (induction bp)
  case Nil
  then show ?case by (simp add: group_keys_simps)
next
  case (Cons kg bp)
  obtain k g where kg: "kg = (k, g)" by (cases kg)
  show ?case
  proof (cases "py_key_eq k p")
    case True
    then have "py_key k = py_key p" by (simp add: py_key_eq_def)
    with True kg show ?thesis by (simp add: group_keys_simps)
  next
    case False
    with kg Cons.IH show ?thesis
      by (simp add: group_keys_simps insert_commute)
  qed
qed

lemma distinct_group_keys_add:
  "distinct (group_keys bp) \<Longrightarrow> distinct (group_keys (add_to_project p it bp))"
proof (induction bp)
  case Nil
  then show ?case by (simp add: group_keys_simps)
next
  case (Cons kg bp)
  obtain k g where kg: "kg = (k, g)" by (cases kg)
  from Cons.prems kg have d: "distinct (group_keys bp)" and nk: "py_key k \<notin> set (group_keys bp)"
    by (simp_all add: group_keys_simps)
  show ?case
  proof (cases "py_key_eq k p")
    case True
    with Cons.prems kg show ?thesis by (simp add: group_keys_simps)
  next
    case False
    from Cons.IH [OF d] have "distinct (group_keys (add_to_project p it bp))" .
    moreover from nk False have "py_key k \<notin> set (group_keys (add_to_project p it bp))"
      by (simp add: set_group_keys_add py_key_eq_def)
    ultimately show ?thesis
      using kg False by (simp add: group_keys_simps)
  qed
qed

lemma group_sizes_add: "group_sizes (add_to_project p it bp) = Suc (group_sizes bp)"
proof (induction bp)
  case Nil
  then show ?case by (simp add: group_sizes_simps)
next
  case (Cons kg bp)
  obtain k g where kg: "kg = (k, g)" by (cases kg)
  with Cons.IH show ?case by (simp add: group_sizes_simps)
qed

lemma nonempty_groups_add:
  "\<forall>kg\<in>set bp. snd kg \<noteq> [] \<Longrightarrow> \<forall>kg\<in>set (add_to_project p it bp). snd kg \<noteq> []"
proof (induction bp)
  case Nil
  then show ?case by simp
next
  case (Cons kg bp)
  obtain k g where kg: "kg = (k, g)" by (cases kg)
  from Cons.prems have rest: "\<forall>kg\<in>set bp. snd kg \<noteq> []" by simp
  show ?case
  proof (cases "py_key_eq k p")
    case True
    with kg rest show ?thesis by simp
  next
    case False
    with kg Cons.prems Cons.IH [OF rest] show ?thesis by simp
  qed
qed

lemma group_of_member:
  "distinct (group_keys bp) \<Longrightarrow> (k, g) \<in> set bp \<Longrightarrow> group_of bp k = g"
proof (induction bp)
  case Nil
  then show ?case by simp
next
  case (Cons kg bp)
  obtain k' g' where kg: "kg = (k', g')" by (cases kg)
  from Cons.prems(1) kg have d: "distinct (group_keys bp)"
    and nk: "py_key k' \<notin> set (group_keys bp)"
    by (simp_all add: group_keys_simps)
  show ?case
  proof (cases "(k, g) = kg")
    case True
    with kg show ?thesis by (simp add: py_key_eq_def)
  next
    case False
    with Cons.prems(2) have m: "(k, g) \<in> set bp" by simp
    then have "py_key (fst (k, g)) \<in> (\<lambda>p. py_key (fst p)) ` set bp"
      by (rule imageI)
    then have "py_key k \<in> set (group_keys bp)"
      by (simp add: group_keys_def)
    with nk have "py_key k' \<noteq> py_key k" by auto
    then have "\<not> py_key_eq k' k" by (simp add: py_key_eq_def)
    with Cons.IH [OF d m] kg show ?thesis by simp
  qed
qed

lemma group_of_nonempty:
  "group_of bp k \<noteq> [] \<Longrightarrow> \<exists>k'. (k', group_of bp k) \<in> set bp \<and> py_key_eq k' k"
  by (induction bp) (auto split: if_splits)

lemma group_completed_step:
  assumes "group_completed (item # items) bp un = Inr res"
  shows "(\<exists>kv. item = JObj kv) \<and>
         (if unparented item then group_completed items bp (un @ [item]) = Inr res
          else \<exists>p. parent_ref item = Some p \<and> p \<noteq> JStr ''unassigned'' \<and>
                 group_completed items (add_to_project p item bp) un = Inr res)"
proof -
  from assms obtain kv where item: "item = JObj kv"
    by (cases item) auto
  show ?thesis
  proof (cases "map_of kv ''parentId''")
    case None
    with assms item show ?thesis
      by (simp add: unparented_def)
  next
    case (Some p)
    with assms item show ?thesis
      by (simp add: unparented_def split: if_splits)
  qed
qed

lemma child_of_unparented: "unparented it \<Longrightarrow> \<not> child_of k it"
  by (auto simp: unparented_def child_of_def)

lemma child_of_parent:
  "parent_ref it = Some p \<Longrightarrow> p \<noteq> JStr ''unassigned'' \<Longrightarrow> child_of k it = py_key_eq p k"
  by (auto simp: child_of_def py_key_eq_def)

lemma group_completed_items:
  "group_completed items bp un = Inr (bp', un') \<Longrightarrow>
   (\<forall>it\<in>set items. \<exists>kv. it = JObj kv) \<and> un' = un @ filter unparented items"
proof (induction items arbitrary: bp un)
  case Nil
  then show ?case by simp
next
  case (Cons item items)
  from group_completed_step [OF Cons.prems] have obj: "\<exists>kv. item = JObj kv" ..
  show ?case
  proof (cases "unparented item")
    case True
    with group_completed_step [OF Cons.prems]
    have "group_completed items bp (un @ [item]) = Inr (bp', un')" by simp
    from Cons.IH [OF this] obj True show ?thesis by simp
  next
    case False
    with group_completed_step [OF Cons.prems] obtain p
      where "group_completed items (add_to_project p item bp) un = Inr (bp', un')" by auto
    from Cons.IH [OF this] obj False show ?thesis by simp
  qed
qed

lemma group_completed_groups:
  "group_completed items bp un = Inr (bp', un') \<Longrightarrow>
   group_of bp' k = group_of bp k @ filter (child_of k) items"
proof (induction items arbitrary: bp un)
  case Nil
  then show ?case by simp
next
  case (Cons item items)
  show ?case
  proof (cases "unparented item")
    case True
    with group_completed_step [OF Cons.prems]
    have "group_completed items bp (un @ [item]) = Inr (bp', un')" by simp
    from Cons.IH [OF this] True show ?thesis by (simp add: child_of_unparented)
  next
    case False
    with group_completed_step [OF Cons.prems] obtain p
      where p: "parent_ref item = Some p" "p \<noteq> JStr ''unassigned''"
        and "group_completed items (add_to_project p item bp) un = Inr (bp', un')" by auto
    from Cons.IH [OF this(3)] p show ?thesis
      by (simp add: group_of_add child_of_parent)
  qed
qed

lemma group_completed_shape:
  "group_completed items bp un = Inr (bp', un') \<Longrightarrow>
   distinct (group_keys bp) \<Longrightarrow> \<forall>kg\<in>set bp. snd kg \<noteq> [] \<Longrightarrow>
   distinct (group_keys bp') \<and> (\<forall>kg\<in>set bp'. snd kg \<noteq> [])"
proof (induction items arbitrary: bp un)
  case Nil
  then show ?case by simp
next
  case (Cons item items)
  show ?case
  proof (cases "unparented item")
    case True
    with group_completed_step [OF Cons.prems(1)]
    have "group_completed items bp (un @ [item]) = Inr (bp', un')" by simp
    from Cons.IH [OF this Cons.prems(2,3)] show ?thesis .
  next
    case False
    with group_completed_step [OF Cons.prems(1)] obtain p
      where "group_completed items (add_to_project p item bp) un = Inr (bp', un')" by auto
    from Cons.IH [OF this distinct_group_keys_add [OF Cons.prems(2)]
        nonempty_groups_add [OF Cons.prems(3)]]
    show ?thesis .
  qed
qed

lemma group_completed_sizes:
  "group_completed items bp un = Inr (bp', un') \<Longrightarrow>
   group_sizes bp' + length un' = group_sizes bp + length un + length items"
proof (induction items arbitrary: bp un)
  case Nil
  then show ?case by simp
next
  case (Cons item items)
  show ?case
  proof (cases "unparented item")
    case True
    with group_completed_step [OF Cons.prems]
    have "group_completed items bp (un @ [item]) = Inr (bp', un')" by simp
    from Cons.IH [OF this] show ?thesis by simp
  next
    case False
    with group_completed_step [OF Cons.prems] obtain p
      where "group_completed items (add_to_project p item bp) un = Inr (bp', un')" by auto
    from Cons.IH [OF this] show ?thesis by (simp add: group_sizes_add)
  qed
qed

lemma group_completed_total:
  "\<forall>it\<in>set items. hashable_parent it \<Longrightarrow> \<exists>res. group_completed items bp un = Inr res"
proof (induction items arbitrary: bp un)
  case Nil
  then show ?case by simp
next
  case (Cons item items)
  from Cons.prems obtain kv where item: "item = JObj kv"
    by (cases item) auto
  from Cons.prems have rest: "\<forall>it\<in>set items. hashable_parent it"
    by simp
  show ?case
  proof (cases "map_of kv ''parentId''")
    case None
    with item Cons.IH [OF rest] show ?thesis by simp
  next
    case (Some p)
    with Cons.prems item have "py_hashable p" by simp
    with Some item Cons.IH [OF rest] show ?thesis by simp
  qed
qed

text \<open>What a successful response of \<open>get_completed_tasks_for_date\<close> holds.\<close>

lemma completed_tasks_grouping:
  assumes "get_completed_tasks_for_date tr st d dbg n = (SimpleResponse r s e cnt b, n')"
  shows "\<exists>items.
     get_done_items tr (create_api_client st) (Some d) n = (Inr (all_completed r), n') \<and>
     py_iter (all_completed r) = Inr items \<and>
     unassigned_completed r = filter unparented items \<and>
     (\<forall>kg\<in>set (completed_by_project r).
        snd kg \<noteq> [] \<and> snd kg = filter (child_of (fst kg)) items) \<and>
     (\<forall>it\<in>set items. \<not> unparented it \<longrightarrow>
        (\<exists>kg\<in>set (completed_by_project r). child_of (fst kg) it)) \<and>
     distinct (group_keys (completed_by_project r)) \<and>
     total_completed r = length items \<and>
     unassigned_count r = length (unassigned_completed r) \<and>
     project_count r = length (completed_by_project r) \<and>
     total_completed r = unassigned_count r + group_sizes (completed_by_project r)"
proof -
  from assms obtain completed_items items by_project unassigned total
    where fetched: "get_done_items tr (create_api_client st) (Some d) n = (Inr completed_items, n')"
      and iter: "py_iter completed_items = Inr items"
      and grp: "group_completed items [] [] = Inr (by_project, unassigned)"
      and len: "py_len completed_items = Inr total"
      and r: "r = \<lparr>date = d, total_completed = total, completed_by_project = by_project,
                   unassigned_completed = unassigned, project_count = length by_project,
                   unassigned_count = length unassigned, all_completed = completed_items,
                   source = ''Efficiently filtered from /doneItems?date='' @ d\<rparr>"
    by (auto simp: get_completed_tasks_for_date_def get_completed_tasks_for_date_try_def
        split: prod.splits sum.splits)
  from iter len have total: "total = length items"
    by (cases completed_items) auto
  from group_completed_items [OF grp]
  have objs: "\<forall>it\<in>set items. \<exists>kv. it = JObj kv" and un: "unassigned = filter unparented items"
    by simp_all
  from group_completed_groups [OF grp]
  have grp_of: "\<And>k. group_of by_project k = filter (child_of k) items"
    by simp
  from group_completed_shape [OF grp]
  have dist: "distinct (group_keys by_project)"
    and nonempty: "\<forall>kg\<in>set by_project. snd kg \<noteq> []"
    by (simp_all add: group_keys_simps)
  from group_completed_sizes [OF grp]
  have sizes: "group_sizes by_project + length unassigned = length items"
    by (simp add: group_sizes_simps)
  have groups: "\<forall>kg\<in>set by_project. snd kg \<noteq> [] \<and> snd kg = filter (child_of (fst kg)) items"
  proof
    fix kg assume kg: "kg \<in> set by_project"
    then have "(fst kg, snd kg) \<in> set by_project" by simp
    from group_of_member [OF dist this] grp_of nonempty kg
    show "snd kg \<noteq> [] \<and> snd kg = filter (child_of (fst kg)) items"
      by auto
  qed
  have placed: "\<forall>it\<in>set items. \<not> unparented it \<longrightarrow> (\<exists>kg\<in>set by_project. child_of (fst kg) it)"
  proof (intro ballI impI)
    fix it assume it: "it \<in> set items" and nu: "\<not> unparented it"
    then obtain p where p: "parent_ref it = Some p" "p \<noteq> JStr ''unassigned''"
      by (auto simp: unparented_def)
    then have c: "child_of p it"
      by (simp add: child_of_def py_key_eq_def)
    with it have "group_of by_project p \<noteq> []"
      by (auto simp: grp_of filter_empty_conv)
    from group_of_nonempty [OF this] obtain k'
      where k': "(k', group_of by_project p) \<in> set by_project" "py_key_eq k' p"
      by blast
    from k'(2) p have "child_of k' it"
      by (simp add: child_of_def)
    with k'(1) show "\<exists>kg\<in>set by_project. child_of (fst kg) it"
      by force
  qed
  have fields: "all_completed r = completed_items" "unassigned_completed r = unassigned"
    "completed_by_project r = by_project" "total_completed r = total"
    "unassigned_count r = length unassigned" "project_count r = length by_project"
    by (simp_all add: r)
  from sizes total have count: "total = length unassigned + group_sizes by_project"
    by simp
  show ?thesis
    unfolding fields
    using fetched iter un groups placed dist total count
    by (intro exI [of _ items] conjI) (assumption | rule refl)+
qed


text \<open>The tool succeeds on every list of documented items.\<close>

lemma completed_tasks_succeeds:
  assumes "get_done_items tr (create_api_client st) (Some d) n = (Inr (JArr items), n1)"
    and "\<forall>it\<in>set items. hashable_parent it"
  shows "\<exists>r s. get_completed_tasks_for_date tr st d dbg n =
           (SimpleResponse r s ''/doneItems'' (JInt 1) dbg, n1) \<and> all_completed r = JArr items"
proof -
  from group_completed_total [OF assms(2)] obtain by_project unassigned
    where "group_completed items [] [] = Inr (by_project, unassigned)"
    by fastforce
  with assms(1) show ?thesis
    by (simp add: get_completed_tasks_for_date_def get_completed_tasks_for_date_try_def)
qed

section \<open>Field projection\<close>

lemma map_of_filter_keys:
  "map_of (filter (\<lambda>p. fst p \<in> S) kv) k = (if k \<in> S then map_of kv k else None)"
  by (induction kv) auto

lemma project_tasks_all2:
  "project_tasks S ts = Inr ps \<Longrightarrow>
   list_all2 (\<lambda>t p. \<exists>kv. t = JObj kv \<and> p = JObj (filter (\<lambda>p. fst p \<in> S) kv)) ts ps"
proof (induction ts arbitrary: ps)
  case Nil
  then show ?case by simp
next
  case (Cons t ts)
  from Cons.prems obtain kv where t: "t = JObj kv"
    by (cases t) auto
  from Cons.prems t obtain r where r: "project_tasks S ts = Inr r"
    by (auto split: sum.splits)
  from Cons.prems t r have "ps = JObj (filter (\<lambda>p. fst p \<in> S) kv) # r"
    by simp
  with Cons.IH [OF r] t show ?case
    by simp
qed

lemma fields_sorted:
  "set (sorted_list_of_set (set fs \<union> {''_id''})) = set fs \<union> {''_id''} \<and>
   sorted (sorted_list_of_set (set fs \<union> {''_id''})) \<and>
   distinct (sorted_list_of_set (set fs \<union> {''_id''}))"
proof -
  have "finite (set fs \<union> {''_id''})" by simp
  then show ?thesis
    by (simp only: set_sorted_list_of_set sorted_sorted_list_of_set
        distinct_sorted_list_of_set simp_thms)
qed

lemma project_tasks_keeps:
  assumes "project_tasks S ts = Inr ps" and "i \<in> S"
  shows "list_all2 (\<lambda>t p. \<exists>kv kv'. t = JObj kv \<and> p = JObj kv' \<and>
                      map_of kv' i = map_of kv i \<and>
                      (\<forall>f. map_of kv' f = (if f \<in> S then map_of kv f else None))) ts ps"
proof (rule list_all2_mono [OF project_tasks_all2 [OF assms(1)]])
  fix t p
  assume "\<exists>kv. t = JObj kv \<and> p = JObj (filter (\<lambda>p. fst p \<in> S) kv)"
  then obtain kv where "t = JObj kv" "p = JObj (filter (\<lambda>p. fst p \<in> S) kv)"
    by blast
  moreover have "map_of (filter (\<lambda>p. fst p \<in> S) kv) i = map_of kv i"
    using assms(2) by (simp only: map_of_filter_keys if_True)
  moreover have "\<forall>f. map_of (filter (\<lambda>p. fst p \<in> S) kv) f =
      (if f \<in> S then map_of kv f else None)"
    by (simp only: map_of_filter_keys simp_thms)
  ultimately show "\<exists>kv kv'. t = JObj kv \<and> p = JObj kv' \<and>
                      map_of kv' i = map_of kv i \<and>
                      (\<forall>f. map_of kv' f = (if f \<in> S then map_of kv f else None))"
    by blast
qed

lemma project_result_fields:
  assumes "fs \<noteq> []" and "map_of result ''tasks'' = Some tv" and "py_iter tv = Inr ts"
    and "project_result (Some fs) result = Inr data"
  shows "\<exists>ps. project_tasks (set fs \<union> {''_id''}) ts = Inr ps \<and>
           map_of data ''tasks'' = Some (JArr ps) \<and>
           map_of data ''fields_returned'' =
             Some (JArr (map JStr (sorted_list_of_set (set fs \<union> {''_id''}))))"
  using assms
  by (auto simp: project_result_def update_conv' Let_def split: sum.splits)

lemma get_all_tasks_data:
  assumes "impl (create_api_client st) lbl n = (Inr result, n1)"
    and "get_all_tasks impl st lbl flds dbg n = (SimpleResponse data s e k d, n2)"
  shows "project_result flds result = Inr data"
  using assms by (auto simp: get_all_tasks_def split: sum.splits)

lemma map_of_query_result_fields:
  "map_of (query_result a tasks) ''fields_returned'' =
     (if truthy (req_fields a) then Some (JArr (map JStr (fields_with_id (the (req_fields a)))))
      else None)"
  by (simp add: query_result_def update_conv' Let_def)

lemma sorted_title: "sorted_list_of_set (set [''title''] \<union> {''_id''}) = [''_id'', ''title'']"
  by code_simp

lemma find_docs_empty_fields:
  "find_docs tr c selector (Some []) limit n = find_docs tr c selector None limit n"
  by (simp add: find_docs_def)

lemma query_result_empty_fields:
  "query_result (a\<lparr>req_fields := Some []\<rparr>) tasks = query_result (a\<lparr>req_fields := None\<rparr>) tasks"
  by (simp add: query_result_def Let_def)

lemma filter_desc_fields: "filter_desc (a\<lparr>req_fields := f\<rparr>) = filter_desc a"
  by (simp add: filter_desc_def Let_def)

lemma project_result_empty_fields:
  "project_result (Some []) result = Inr result" "project_result None result = Inr result"
  by (simp_all add: project_result_def)

lemma run_query_empty_fields:
  "run_query tr c (a\<lparr>req_fields := Some []\<rparr>) sel k n =
   run_query tr c (a\<lparr>req_fields := None\<rparr>) sel k n"
  by (simp add: run_query_def find_docs_empty_fields query_result_empty_fields
      filter_desc_fields cong: prod.case_cong sum.case_cong)

lemma finish_selector_fields:
  "finish_selector (a\<lparr>req_fields := f\<rparr>) sel = finish_selector a sel"
  by (simp add: finish_selector_def)

lemma query_tasks_empty_fields:
  "query_tasks tr st (a\<lparr>req_fields := Some []\<rparr>) n =
   query_tasks tr st (a\<lparr>req_fields := None\<rparr>) n"
  by (simp add: query_tasks_def query_tasks_try_def run_query_empty_fields
      finish_selector_fields cong: prod.case_cong sum.case_cong option.case_cong if_cong)

section \<open>The claims\<close>

text \<open>
  Claim C1. A date argument counts as supplied when it is given and not the empty string
  (the code tests it with \<open>if due:\<close>). Whatever store query a call of \<open>query_tasks\<close>
  issues: when an exact due date is supplied, the \<open>dueDate\<close> clause of the selector is that
  date, whatever \<open>due_before\<close> and \<open>due_after\<close> are; when none is supplied and at least one
  bound is, the clause holds \<open>$gte\<close> for \<open>due_after\<close> and \<open>$lte\<close> for \<open>due_before\<close>, each
  present exactly when its bound is supplied; when nothing is supplied there is no
  clause. The same holds for the scheduled date and the \<open>day\<close> clause.
\<close>

theorem query_tasks_date_clauses:
  assumes "query_tasks tr st a n = (r, n')" and "rq \<in> set (issued n n')"
    and "body rq = FindPayload s fs lim"
  shows "\<exists>sel. s = JObj sel \<and>
    (\<forall>d. due a = Some d \<and> d \<noteq> [] \<longrightarrow> map_of sel ''dueDate'' = Some (JStr d)) \<and>
    (\<not> truthy (due a) \<and> (truthy (due_before a) \<or> truthy (due_after a)) \<longrightarrow>
       map_of sel ''dueDate'' =
         Some (JObj (bound ''$gte'' (due_after a) @ bound ''$lte'' (due_before a)))) \<and>
    (\<not> truthy (due a) \<and> \<not> truthy (due_before a) \<and> \<not> truthy (due_after a) \<longrightarrow>
       map_of sel ''dueDate'' = None) \<and>
    (\<forall>d. scheduled a = Some d \<and> d \<noteq> [] \<longrightarrow> map_of sel ''day'' = Some (JStr d)) \<and>
    (\<not> truthy (scheduled a) \<and> (truthy (scheduled_before a) \<or> truthy (scheduled_after a)) \<longrightarrow>
       map_of sel ''day'' =
         Some (JObj (bound ''$gte'' (scheduled_after a) @ bound ''$lte'' (scheduled_before a)))) \<and>
    (\<not> truthy (scheduled a) \<and> \<not> truthy (scheduled_before a) \<and>
     \<not> truthy (scheduled_after a) \<longrightarrow> map_of sel ''day'' = None)"
proof -
  from query_tasks_find_selector [OF assms] obtain sel0
    where s: "s = JObj (finish_selector a sel0)"
      and k: "\<And>k. k \<noteq> ''labelIds'' \<Longrightarrow> map_of sel0 k = map_of (base_selector (include_done a)) k"
    by blast
  have "map_of sel0 ''dueDate'' = None" "map_of sel0 ''day'' = None"
    by (simp_all add: k map_of_base_selector)
  then show ?thesis
    using s by (auto simp: map_of_finish_dueDate map_of_finish_day date_filter_bounds)
qed

theorem query_tasks_date_clauses_witness:
  "due due_args = Some ''2024-05-01'' \<and> due_before due_args = Some ''2024-06-01'' \<and>
   \<not> truthy (scheduled due_args) \<and> truthy (scheduled_after due_args) \<and>
   find_request (create_api_client st_full)
     (JObj [(''db'', JStr ''Tasks''), (''done'', JObj [(''$ne'', JBool True)]),
            (''dueDate'', JStr ''2024-05-01''),
            (''day'', JObj [(''$gte'', JStr ''2024-04-01'')])]) None 500
     \<in> set (issued fresh (snd (query_tasks marvin st_full due_args fresh))) \<and>
   map_of [(''db'', JStr ''Tasks''), (''done'', JObj [(''$ne'', JBool True)]),
           (''dueDate'', JStr ''2024-05-01''),
           (''day'', JObj [(''$gte'', JStr ''2024-04-01'')])] ''dueDate'' =
     Some (JStr ''2024-05-01'') \<and>
   map_of [(''db'', JStr ''Tasks''), (''done'', JObj [(''$ne'', JBool True)]),
           (''dueDate'', JStr ''2024-05-01''),
           (''day'', JObj [(''$gte'', JStr ''2024-04-01'')])] ''day'' =
     Some (JObj (bound ''$gte'' (Some ''2024-04-01'') @ bound ''$lte'' None))"
  using query_tasks_date_clauses [of marvin st_full due_args fresh
      "fst (query_tasks marvin st_full due_args fresh)"
      "snd (query_tasks marvin st_full due_args fresh)"
      "find_request (create_api_client st_full)
         (JObj [(''db'', JStr ''Tasks''), (''done'', JObj [(''$ne'', JBool True)]),
                (''dueDate'', JStr ''2024-05-01''),
                (''day'', JObj [(''$gte'', JStr ''2024-04-01'')])]) None 500"
      "JObj [(''db'', JStr ''Tasks''), (''done'', JObj [(''$ne'', JBool True)]),
             (''dueDate'', JStr ''2024-05-01''),
             (''day'', JObj [(''$gte'', JStr ''2024-04-01'')])]" None 500]
  by (simp add: eval_defs example_defs bound_def)





text \<open>
  Claim C4, as the code has it. When one of the four store settings (URI, database name,
  user, password) is empty, \<open>query_tasks\<close> answers with a configuration error and leaves
  the network untouched; the text of the error is fixed: it lists all four settings,
  whichever of them is missing, and points to \<open>get_all_tasks\<close>. Likewise \<open>find_docs\<close>
  raises its configuration error, issuing no request, when one of the client's four
  credentials is empty.
\<close>

theorem query_tasks_needs_credentials:
  "(missing_settings st \<noteq> [] \<longrightarrow>
      query_tasks tr st a n =
        (ErrorResponse (ValueError query_tasks_message) ''CouchDB _find'' (debug a), n) \<and>
      settings_named query_tasks_message =
        [''_DB_URI'', ''_DB_NAME'', ''_DB_USER'', ''_DB_PASSWORD''] \<and>
      names_setting ''get_all_tasks'' query_tasks_message) \<and>
   (db_uri c = [] \<or> db_name c = [] \<or> db_user c = [] \<or> db_password c = [] \<longrightarrow>
      find_docs tr c selector flds limit n = (Inl (ValueError find_docs_message), n))"
proof (intro conjI impI)
  assume "missing_settings st \<noteq> []"
  then have "\<not> has_couchdb (create_api_client st)"
    by (rule missing_no_couchdb)
  then show "query_tasks tr st a n =
      (ErrorResponse (ValueError query_tasks_message) ''CouchDB _find'' (debug a), n)"
    by (simp add: query_tasks_def query_tasks_try_def)
next
  show "settings_named query_tasks_message =
      [''_DB_URI'', ''_DB_NAME'', ''_DB_USER'', ''_DB_PASSWORD'']"
    by (rule settings_named_query)
next
  show "names_setting ''get_all_tasks'' query_tasks_message"
    by (rule names_fallback)
next
  assume "db_uri c = [] \<or> db_name c = [] \<or> db_user c = [] \<or> db_password c = []"
  then have "\<not> has_couchdb c"
    by (auto simp: has_couchdb_def)
  then show "find_docs tr c selector flds limit n = (Inl (ValueError find_docs_message), n)"
    by (simp add: find_docs_def)
qed

theorem query_tasks_needs_credentials_witness:
  "missing_settings st_no_password \<noteq> [] \<and>
   query_tasks offline st_no_password plain_args fresh =
     (ErrorResponse (ValueError query_tasks_message) ''CouchDB _find'' False, fresh) \<and>
   db_password (create_api_client st_no_password) = [] \<and>
   find_docs offline (create_api_client st_no_password) (JObj []) None 500 fresh =
     (Inl (ValueError find_docs_message), fresh)"
  using query_tasks_needs_credentials [of st_no_password offline plain_args fresh
      "create_api_client st_no_password" "JObj []" None 500]
  by (simp add: st_no_password_def st_full_def missing_settings_def create_api_client_def
      MarvinAPIClient_def plain_args_def)

text \<open>
  The claim as the spec words it has the error name the exact missing settings. With the
  password alone missing, the error still names all four settings.
\<close>

theorem names_exact_missing_counterexample:
  "query_tasks offline st_no_password plain_args fresh =
     (ErrorResponse (ValueError query_tasks_message) ''CouchDB _find'' False, fresh) \<and>
   missing_settings st_no_password = [''_DB_PASSWORD''] \<and>
   settings_named query_tasks_message \<noteq> missing_settings st_no_password"
  by (simp add: query_tasks_def query_tasks_try_def has_couchdb_def create_api_client_def
      MarvinAPIClient_def st_no_password_def st_full_def plain_args_def missing_settings_def
      settings_named_query)

text \<open>
  Claim C5. For a non-empty list \<open>fs\<close> of requested fields: \<open>find_docs\<close>, with credentials,
  issues one request whose projection is the set of \<open>fs\<close> with \<open>_id\<close> added;
  \<open>get_all_tasks\<close>, when the traversal result has a task list and the call succeeds,
  returns each task restricted to the fields of \<open>fs\<close> and \<open>_id\<close>, so with the \<open>_id\<close> it
  had, and records as \<open>fields_returned\<close> the sorted, duplicate-free list of \<open>fs\<close> with
  \<open>_id\<close>; \<open>query_tasks\<close>, when it succeeds, records the same list as \<open>fields_returned\<close>,
  unless the result is the short-circuit of an unknown label, which records no fields.
\<close>

theorem id_field_forced:
  assumes "fs \<noteq> []"
  shows
   "(has_couchdb c \<longrightarrow>
       (\<exists>rq. issued n (snd (find_docs tr c selector (Some fs) limit n)) = [rq] \<and>
             body rq = FindPayload selector (Some (set fs \<union> {''_id''})) limit)) \<and>
    (impl (create_api_client st) lbl n = (Inr result, n1) \<and>
     map_of result ''tasks'' = Some tv \<and> py_iter tv = Inr ts \<and>
     get_all_tasks impl st lbl (Some fs) dbg n = (SimpleResponse data s e k d, n2) \<longrightarrow>
       (\<exists>ps fr. map_of data ''tasks'' = Some (JArr ps) \<and>
          list_all2 (\<lambda>t p. \<exists>kv kv'. t = JObj kv \<and> p = JObj kv' \<and>
                      map_of kv' ''_id'' = map_of kv ''_id'' \<and>
                      (\<forall>f. map_of kv' f =
                            (if f \<in> set fs \<union> {''_id''} then map_of kv f else None))) ts ps \<and>
          map_of data ''fields_returned'' = Some (JArr (map JStr fr)) \<and>
          set fr = set fs \<union> {''_id''} \<and> sorted fr \<and> distinct fr)) \<and>
    (req_fields a = Some fs \<and>
     query_tasks tr st a n = (SimpleResponse data' s' e' k' d', n3) \<longrightarrow>
       data' = [(''tasks'', JArr []), (''total_tasks'', JInt 0)] \<or>
       (\<exists>fr. map_of data' ''fields_returned'' = Some (JArr (map JStr fr)) \<and>
          set fr = set fs \<union> {''_id''} \<and> sorted fr \<and> distinct fr))"
proof (intro conjI impI)
  assume c: "has_couchdb c"
  from assms have "body (find_request c selector (Some fs) limit) =
      FindPayload selector (Some (set fs \<union> {''_id''})) limit"
    by (simp add: find_request_def)
  then show "\<exists>rq. issued n (snd (find_docs tr c selector (Some fs) limit n)) = [rq] \<and>
             body rq = FindPayload selector (Some (set fs \<union> {''_id''})) limit"
    by (simp add: find_docs_configured [OF c] issued_net_after)
next
  assume h: "impl (create_api_client st) lbl n = (Inr result, n1) \<and>
     map_of result ''tasks'' = Some tv \<and> py_iter tv = Inr ts \<and>
     get_all_tasks impl st lbl (Some fs) dbg n = (SimpleResponse data s e k d, n2)"
  then have "project_result (Some fs) result = Inr data"
    using get_all_tasks_data by blast
  from project_result_fields [OF assms _ _ this] h obtain ps
    where ps: "project_tasks (set fs \<union> {''_id''}) ts = Inr ps"
      and t: "map_of data ''tasks'' = Some (JArr ps)"
      and f: "map_of data ''fields_returned'' =
             Some (JArr (map JStr (sorted_list_of_set (set fs \<union> {''_id''}))))"
    by blast
  have "list_all2 (\<lambda>t p. \<exists>kv kv'. t = JObj kv \<and> p = JObj kv' \<and>
                      map_of kv' ''_id'' = map_of kv ''_id'' \<and>
                      (\<forall>f. map_of kv' f =
                            (if f \<in> set fs \<union> {''_id''} then map_of kv f else None))) ts ps"
    by (rule project_tasks_keeps [OF ps]) simp
  with t f fields_sorted [of fs]
  show "\<exists>ps fr. map_of data ''tasks'' = Some (JArr ps) \<and>
          list_all2 (\<lambda>t p. \<exists>kv kv'. t = JObj kv \<and> p = JObj kv' \<and>
                      map_of kv' ''_id'' = map_of kv ''_id'' \<and>
                      (\<forall>f. map_of kv' f =
                            (if f \<in> set fs \<union> {''_id''} then map_of kv f else None))) ts ps \<and>
          map_of data ''fields_returned'' = Some (JArr (map JStr fr)) \<and>
          set fr = set fs \<union> {''_id''} \<and> sorted fr \<and> distinct fr"
    by blast
next
  assume h: "req_fields a = Some fs \<and>
     query_tasks tr st a n = (SimpleResponse data' s' e' k' d', n3)"
  then have q: "query_tasks tr st a n = (SimpleResponse data' s' e' k' d', n3)" ..
  from query_tasks_data [OF q]
  consider "data' = [(''tasks'', JArr []), (''total_tasks'', JInt 0)]"
    | tasks where "data' = query_result a tasks"
    by blast
  then show "data' = [(''tasks'', JArr []), (''total_tasks'', JInt 0)] \<or>
       (\<exists>fr. map_of data' ''fields_returned'' = Some (JArr (map JStr fr)) \<and>
          set fr = set fs \<union> {''_id''} \<and> sorted fr \<and> distinct fr)"
  proof cases
    case 1
    then show ?thesis ..
  next
    case 2
    with h assms have "map_of data' ''fields_returned'' =
        Some (JArr (map JStr (sorted_list_of_set (set fs \<union> {''_id''}))))"
      by (simp add: map_of_query_result_fields fields_with_id_def)
    with fields_sorted [of fs] show ?thesis
      by blast
  qed
qed


theorem id_field_forced_witness:
  "[''title''] \<noteq> [] \<and> has_couchdb (create_api_client st_full) \<and>
   issued fresh (snd (find_docs marvin (create_api_client st_full) (JObj []) (Some [''title'']) 500 fresh)) =
     [find_request (create_api_client st_full) (JObj []) (Some [''title'']) 500] \<and>
   body (find_request (create_api_client st_full) (JObj []) (Some [''title'']) 500) =
     FindPayload (JObj []) (Some (set [''title''] \<union> {''_id''})) 500 \<and>
   listing (create_api_client st_full) None fresh =
     (Inr [(''tasks'', JArr [task_b]), (''total_tasks'', JInt 1), (''api_calls_made'', JInt 3)], fresh) \<and>
   get_all_tasks listing st_full None (Some [''title'']) False fresh =
     (SimpleResponse
        [(''tasks'', JArr [JObj [(''title'', JStr ''Plan''), (''_id'', JStr ''t2'')]]),
         (''total_tasks'', JInt 1), (''api_calls_made'', JInt 3),
         (''fields_returned'', JArr [JStr ''_id'', JStr ''title''])]
        [Lit ''Retrieved '', Fmt (JInt 1), Lit '' tasks across all projects'']
        ''/categories + /children'' (JInt 3) False, fresh) \<and>
   req_fields (plain_args\<lparr>req_fields := Some [''title'']\<rparr>) = Some [''title''] \<and>
   fst (query_tasks marvin st_full (plain_args\<lparr>req_fields := Some [''title'']\<rparr>) fresh) =
     SimpleResponse
        [(''tasks'', JArr [task_a]), (''total_tasks'', JInt 1),
         (''source'', JStr ''CouchDB _find query''),
         (''fields_returned'', JArr [JStr ''_id'', JStr ''title''])]
        [Lit ''Retrieved '', Fmt (JInt 1), Lit '' tasks via CouchDB'']
        ''CouchDB _find'' (JInt 1) False"
  using id_field_forced [of "[''title'']" "create_api_client st_full" fresh marvin "JObj []" 500
      listing st_full None
      "[(''tasks'', JArr [task_b]), (''total_tasks'', JInt 1), (''api_calls_made'', JInt 3)]" fresh
      "JArr [task_b]" "[task_b]" False
      "[(''tasks'', JArr [JObj [(''title'', JStr ''Plan''), (''_id'', JStr ''t2'')]]),
         (''total_tasks'', JInt 1), (''api_calls_made'', JInt 3),
         (''fields_returned'', JArr [JStr ''_id'', JStr ''title''])]"
      "[Lit ''Retrieved '', Fmt (JInt 1), Lit '' tasks across all projects'']"
      "''/categories + /children''" "JInt 3" False fresh
      "plain_args\<lparr>req_fields := Some [''title'']\<rparr>"]
  by (simp add: eval_defs example_defs get_all_tasks_def
      project_result_def sorted_title del: sorted_list_of_set_insert_remove)

text \<open>
  Claim C6. Whatever store query a call of \<open>query_tasks\<close> issues, its selector holds the
  clause \<open>done: {$ne: true}\<close> when \<open>include_done\<close> is not set, and no \<open>done\<close> clause at all
  when it is set.
\<close>

theorem query_tasks_done_clause:
  assumes "query_tasks tr st a n = (r, n')" and "rq \<in> set (issued n n')"
    and "body rq = FindPayload s fs lim"
  shows "\<exists>sel. s = JObj sel \<and>
    map_of sel ''done'' =
      (if include_done a then None else Some (JObj [(''$ne'', JBool True)]))"
proof -
  from query_tasks_find_selector [OF assms] obtain sel0
    where s: "s = JObj (finish_selector a sel0)"
      and k: "\<And>k. k \<noteq> ''labelIds'' \<Longrightarrow> map_of sel0 k = map_of (base_selector (include_done a)) k"
    by blast
  show ?thesis
    using s by (simp add: map_of_finish_done k map_of_base_selector)
qed

text \<open>
  With \<open>include_done\<close> set the selector is the bare \<open>db\<close> clause, and the completed task
  the store answers with is in the result.
\<close>

theorem query_tasks_done_clause_witness:
  "find_request (create_api_client st_full)
     (JObj [(''db'', JStr ''Tasks''), (''done'', JObj [(''$ne'', JBool True)])]) None 500
     \<in> set (issued fresh (snd (query_tasks marvin st_full plain_args fresh))) \<and>
   map_of [(''db'', JStr ''Tasks''), (''done'', JObj [(''$ne'', JBool True)])] ''done'' =
     Some (JObj [(''$ne'', JBool True)]) \<and>
   find_request (create_api_client st_full) (JObj [(''db'', JStr ''Tasks'')]) None 500
     \<in> set (issued fresh
         (snd (query_tasks marvin st_full (plain_args\<lparr>include_done := True\<rparr>) fresh))) \<and>
   map_of [(''db'', JStr ''Tasks'')] ''done'' = None \<and>
   fst (query_tasks marvin st_full (plain_args\<lparr>include_done := True\<rparr>) fresh) =
     SimpleResponse
       [(''tasks'', JArr [task_a]), (''total_tasks'', JInt 1),
        (''source'', JStr ''CouchDB _find query'')]
       [Lit ''Retrieved '', Fmt (JInt 1), Lit '' tasks via CouchDB'']
       ''CouchDB _find'' (JInt 1) False"
  using query_tasks_done_clause [of marvin st_full plain_args fresh
      "fst (query_tasks marvin st_full plain_args fresh)"
      "snd (query_tasks marvin st_full plain_args fresh)"
      "find_request (create_api_client st_full)
         (JObj [(''db'', JStr ''Tasks''), (''done'', JObj [(''$ne'', JBool True)])]) None 500"
      "JObj [(''db'', JStr ''Tasks''), (''done'', JObj [(''$ne'', JBool True)])]" None 500]
    query_tasks_done_clause [of marvin st_full "plain_args\<lparr>include_done := True\<rparr>" fresh
      "fst (query_tasks marvin st_full (plain_args\<lparr>include_done := True\<rparr>) fresh)"
      "snd (query_tasks marvin st_full (plain_args\<lparr>include_done := True\<rparr>) fresh)"
      "find_request (create_api_client st_full) (JObj [(''db'', JStr ''Tasks'')]) None 500"
      "JObj [(''db'', JStr ''Tasks'')]" None 500]
  by (simp add: eval_defs example_defs)

text \<open>
  Claim C7. On every list of completed items the upstream returns for the date (dicts
  whose parent reference, if any, can be a dict key) \<open>get_completed_tasks_for_date\<close>
  succeeds. When \<open>get_completed_tasks_for_date\<close> succeeds, its result holds the completed
  items the upstream returned (the flat form) and their grouping: the unassigned bucket
  is exactly the items with no parent or with the parent "unassigned", in order; every
  group of \<open>completed_by_project\<close> is not empty and is exactly the items whose parent is
  the group's key, in order; every other item is in such a group; no two groups share a
  key; and \<open>total_completed\<close> is the length of the flat list, which is
  \<open>unassigned_count\<close> plus the sizes of all groups. An item has no parent when it has
  no \<open>parentId\<close> entry; any other value of the entry, \<open>null\<close> included, is a parent
  identifier and keys a group.
\<close>

theorem completed_tasks_partition:
  "(get_completed_tasks_for_date tr st d dbg n = (SimpleResponse r s e cnt b, n') \<longrightarrow>
      (\<exists>items.
            get_done_items tr (create_api_client st) (Some d) n = (Inr (all_completed r), n') \<and>
            py_iter (all_completed r) = Inr items \<and>
            unassigned_completed r = filter unparented items \<and>
            (\<forall>kg\<in>set (completed_by_project r).
               snd kg \<noteq> [] \<and> snd kg = filter (child_of (fst kg)) items) \<and>
            (\<forall>it\<in>set items. \<not> unparented it \<longrightarrow>
               (\<exists>kg\<in>set (completed_by_project r). child_of (fst kg) it)) \<and>
            distinct (group_keys (completed_by_project r)) \<and>
            total_completed r = length items \<and>
            unassigned_count r = length (unassigned_completed r) \<and>
            project_count r = length (completed_by_project r) \<and>
            total_completed r = unassigned_count r + group_sizes (completed_by_project r))) \<and>
   (get_done_items tr (create_api_client st) (Some d) n = (Inr (JArr its), n1) \<and>
    list_all hashable_parent its \<longrightarrow>
      (\<exists>r s. get_completed_tasks_for_date tr st d dbg n =
                (SimpleResponse r s ''/doneItems'' (JInt 1) dbg, n1) \<and>
              all_completed r = JArr its))"
proof (intro conjI impI)
  assume "get_completed_tasks_for_date tr st d dbg n = (SimpleResponse r s e cnt b, n')"
  then show "\<exists>items.
            get_done_items tr (create_api_client st) (Some d) n = (Inr (all_completed r), n') \<and>
            py_iter (all_completed r) = Inr items \<and>
            unassigned_completed r = filter unparented items \<and>
            (\<forall>kg\<in>set (completed_by_project r).
               snd kg \<noteq> [] \<and> snd kg = filter (child_of (fst kg)) items) \<and>
            (\<forall>it\<in>set items. \<not> unparented it \<longrightarrow>
               (\<exists>kg\<in>set (completed_by_project r). child_of (fst kg) it)) \<and>
            distinct (group_keys (completed_by_project r)) \<and>
            total_completed r = length items \<and>
            unassigned_count r = length (unassigned_completed r) \<and>
            project_count r = length (completed_by_project r) \<and>
            total_completed r = unassigned_count r + group_sizes (completed_by_project r)"
    by (rule completed_tasks_grouping)
next
  assume "get_done_items tr (create_api_client st) (Some d) n = (Inr (JArr its), n1) \<and>
    list_all hashable_parent its"
  then have "get_done_items tr (create_api_client st) (Some d) n = (Inr (JArr its), n1)"
    and "\<forall>it\<in>set its. hashable_parent it"
    by (simp_all add: list_all_iff)
  then show "\<exists>r s. get_completed_tasks_for_date tr st d dbg n =
                (SimpleResponse r s ''/doneItems'' (JInt 1) dbg, n1) \<and>
              all_completed r = JArr its"
    by (rule completed_tasks_succeeds)
qed

theorem completed_tasks_partition_witness:
  "get_completed_tasks_for_date history st_full ''2025-06-13'' False fresh =
     (SimpleResponse
        \<lparr>date = ''2025-06-13'', total_completed = 4,
         completed_by_project = [(JStr ''p1'', [item_1, item_4])],
         unassigned_completed = [item_2, item_3], project_count = 1, unassigned_count = 2,
         all_completed = JArr [item_1, item_2, item_3, item_4],
         source = ''Efficiently filtered from /doneItems?date=2025-06-13''\<rparr>
        [Lit ''Retrieved '', Fmt (JInt 4), Lit '' completed tasks for 2025-06-13'']
        ''/doneItems'' (JInt 1) False,
      \<lparr>world = (),
       sent = [api_request (create_api_client st_full) ''get'' ''/doneItems?date=2025-06-13''
                 NoPayload]\<rparr>) \<and>
   get_done_items history (create_api_client st_full) (Some ''2025-06-13'') fresh =
     (Inr (JArr [item_1, item_2, item_3, item_4]),
      \<lparr>world = (),
       sent = [api_request (create_api_client st_full) ''get'' ''/doneItems?date=2025-06-13''
                 NoPayload]\<rparr>) \<and>
   list_all hashable_parent [item_1, item_2, item_3, item_4] \<and>
   filter unparented [item_1, item_2, item_3, item_4] = [item_2, item_3] \<and>
   filter (child_of (JStr ''p1'')) [item_1, item_2, item_3, item_4] = [item_1, item_4] \<and>
   group_sizes [(JStr ''p1'', [item_1, item_4])] = 2"
  using completed_tasks_partition [of history st_full "''2025-06-13''" False fresh
      "\<lparr>date = ''2025-06-13'', total_completed = 4,
         completed_by_project = [(JStr ''p1'', [item_1, item_4])],
         unassigned_completed = [item_2, item_3], project_count = 1, unassigned_count = 2,
         all_completed = JArr [item_1, item_2, item_3, item_4],
         source = ''Efficiently filtered from /doneItems?date=2025-06-13''\<rparr>"
      "[Lit ''Retrieved '', Fmt (JInt 4), Lit '' completed tasks for 2025-06-13'']"
      "''/doneItems''" "JInt 1" False
      "\<lparr>world = (),
        sent = [api_request (create_api_client st_full) ''get'' ''/doneItems?date=2025-06-13''
                  NoPayload]\<rparr>"
      "[item_1, item_2, item_3, item_4]"
      "\<lparr>world = (),
        sent = [api_request (create_api_client st_full) ''get'' ''/doneItems?date=2025-06-13''
                  NoPayload]\<rparr>"]
  by (simp add: get_completed_tasks_for_date_def get_completed_tasks_for_date_try_def
      get_done_items_def eval_defs example_defs unparented_def child_of_def py_key_eq_def
      group_sizes_def)

text \<open>
  Claim C8. When the upstream answers the fetch-children request with an HTTP error
  status, \<open>get_children\<close> returns the empty list if the status is 404 and raises the
  \<open>HTTPError\<close> of that status otherwise.
\<close>

theorem get_children_not_found:
  assumes "fst (tr \<lparr>meth = ''get'', url = base_url c @ ''/children?parentId='' @ pid,
                   hdrs = headers c, auth = None, body = NoPayload\<rparr> (world n)) = Inr resp"
    and "400 \<le> status_code resp" and "status_code resp < 600"
  shows "fst (get_children tr c pid n) =
           (if status_code resp = 404 then Inr (JArr []) else Inl (HTTPError (status_code resp)))"
  using assms
  by (simp add: get_children_def make_request_get api_request_def api_reply_def)

theorem get_children_not_found_witness:
  "fst (failing 404
          \<lparr>meth = ''get'',
           url = base_url (create_api_client st_full) @ ''/children?parentId='' @ ''p1'',
           hdrs = headers (create_api_client st_full), auth = None, body = NoPayload\<rparr>
          (world fresh)) =
      Inr \<lparr>status_code = 404, content = ''error'', json_body = None\<rparr> \<and>
   fst (get_children (failing 404) (create_api_client st_full) ''p1'' fresh) = Inr (JArr []) \<and>
   fst (failing 500
          \<lparr>meth = ''get'',
           url = base_url (create_api_client st_full) @ ''/children?parentId='' @ ''p1'',
           hdrs = headers (create_api_client st_full), auth = None, body = NoPayload\<rparr>
          (world fresh)) =
      Inr \<lparr>status_code = 500, content = ''error'', json_body = None\<rparr> \<and>
   fst (get_children (failing 500) (create_api_client st_full) ''p1'' fresh) =
     Inl (HTTPError 500)"
  using get_children_not_found [of "failing 404" "create_api_client st_full" "''p1''" fresh
      "\<lparr>status_code = 404, content = ''error'', json_body = None\<rparr>"]
    get_children_not_found [of "failing 500" "create_api_client st_full" "''p1''" fresh
      "\<lparr>status_code = 500, content = ''error'', json_body = None\<rparr>"]
  by (simp add: failing_def)

text \<open>
  Claim C9. An empty list of requested fields behaves as no list at all. \<open>find_docs\<close>
  with \<open>fields = []\<close> issues the request of \<open>fields = None\<close>, which carries no projection
  (so \<open>_id\<close> is not added); \<open>get_all_tasks\<close> with \<open>fields = []\<close> answers as with
  \<open>fields = None\<close> and hands the traversal result on unchanged; \<open>query_tasks\<close> with
  \<open>fields = []\<close> answers as with \<open>fields = None\<close>, and a successful result records no
  \<open>fields_returned\<close>.
\<close>

theorem empty_fields_no_projection:
  "(has_couchdb c \<longrightarrow>
      (\<exists>rq. issued n (snd (find_docs tr c selector (Some []) limit n)) = [rq] \<and>
            body rq = FindPayload selector None limit)) \<and>
   find_docs tr c selector (Some []) limit n = find_docs tr c selector None limit n \<and>
   get_all_tasks impl st lbl (Some []) dbg n = get_all_tasks impl st lbl None dbg n \<and>
   (impl (create_api_client st) lbl n = (Inr result, n1) \<longrightarrow>
      (\<exists>s k. get_all_tasks impl st lbl (Some []) dbg n =
               (SimpleResponse result s ''/categories + /children'' k dbg, n1))) \<and>
   query_tasks tr st (a\<lparr>req_fields := Some []\<rparr>) n =
     query_tasks tr st (a\<lparr>req_fields := None\<rparr>) n \<and>
   (query_tasks tr st (a\<lparr>req_fields := Some []\<rparr>) n = (SimpleResponse data s' e k' d, n2) \<longrightarrow>
      map_of data ''fields_returned'' = None)"
proof (intro conjI impI)
  assume c: "has_couchdb c"
  have "body (find_request c selector (Some []) limit) = FindPayload selector None limit"
    by (simp add: find_request_def)
  then show "\<exists>rq. issued n (snd (find_docs tr c selector (Some []) limit n)) = [rq] \<and>
            body rq = FindPayload selector None limit"
    by (simp add: find_docs_configured [OF c] issued_net_after)
next
  show "find_docs tr c selector (Some []) limit n = find_docs tr c selector None limit n"
    by (rule find_docs_empty_fields)
next
  show "get_all_tasks impl st lbl (Some []) dbg n = get_all_tasks impl st lbl None dbg n"
    by (simp add: get_all_tasks_def project_result_empty_fields
        cong: prod.case_cong sum.case_cong)
next
  assume "impl (create_api_client st) lbl n = (Inr result, n1)"
  then show "\<exists>s k. get_all_tasks impl st lbl (Some []) dbg n =
               (SimpleResponse result s ''/categories + /children'' k dbg, n1)"
    by (simp add: get_all_tasks_def project_result_empty_fields
        cong: prod.case_cong sum.case_cong)
next
  show "query_tasks tr st (a\<lparr>req_fields := Some []\<rparr>) n =
     query_tasks tr st (a\<lparr>req_fields := None\<rparr>) n"
    by (rule query_tasks_empty_fields)
next
  assume q: "query_tasks tr st (a\<lparr>req_fields := Some []\<rparr>) n = (SimpleResponse data s' e k' d, n2)"
  from query_tasks_data [OF q]
  consider "data = [(''tasks'', JArr []), (''total_tasks'', JInt 0)]"
    | tasks where "data = query_result (a\<lparr>req_fields := Some []\<rparr>) tasks"
    by blast
  then show "map_of data ''fields_returned'' = None"
  proof cases
    case 1
    then show ?thesis by simp
  next
    case 2
    then show ?thesis by (simp add: map_of_query_result_fields)
  qed
qed

theorem empty_fields_no_projection_witness:
  "has_couchdb (create_api_client st_full) \<and>
   issued fresh (snd (find_docs marvin (create_api_client st_full) (JObj []) (Some []) 500 fresh)) =
     [find_request (create_api_client st_full) (JObj []) (Some []) 500] \<and>
   body (find_request (create_api_client st_full) (JObj []) (Some []) 500) =
     FindPayload (JObj []) None 500 \<and>
   listing (create_api_client st_full) None fresh =
     (Inr [(''tasks'', JArr [task_b]), (''total_tasks'', JInt 1), (''api_calls_made'', JInt 3)], fresh) \<and>
   get_all_tasks listing st_full None (Some []) False fresh =
     (SimpleResponse
        [(''tasks'', JArr [task_b]), (''total_tasks'', JInt 1), (''api_calls_made'', JInt 3)]
        [Lit ''Retrieved '', Fmt (JInt 1), Lit '' tasks across all projects'']
        ''/categories + /children'' (JInt 3) False, fresh) \<and>
   query_tasks marvin st_full (plain_args\<lparr>req_fields := Some []\<rparr>) fresh =
     (SimpleResponse
        [(''tasks'', JArr [task_a]), (''total_tasks'', JInt 1),
         (''source'', JStr ''CouchDB _find query'')]
        [Lit ''Retrieved '', Fmt (JInt 1), Lit '' tasks via CouchDB'']
        ''CouchDB _find'' (JInt 1) False,
      \<lparr>world = (),
       sent = [find_request (create_api_client st_full)
                 (JObj [(''db'', JStr ''Tasks''), (''done'', JObj [(''$ne'', JBool True)])])
                 None 500]\<rparr>) \<and>
   map_of [(''tasks'', JArr [task_a]), (''total_tasks'', JInt 1),
           (''source'', JStr ''CouchDB _find query'')] ''fields_returned'' = None"
  using empty_fields_no_projection [of "create_api_client st_full" fresh marvin "JObj []" 500
      listing st_full None False
      "[(''tasks'', JArr [task_b]), (''total_tasks'', JInt 1), (''api_calls_made'', JInt 3)]" fresh
      plain_args
      "[(''tasks'', JArr [task_a]), (''total_tasks'', JInt 1),
        (''source'', JStr ''CouchDB _find query'')]"
      "[Lit ''Retrieved '', Fmt (JInt 1), Lit '' tasks via CouchDB'']"
      "''CouchDB _find''" "JInt 1" False
      "\<lparr>world = (),
        sent = [find_request (create_api_client st_full)
                  (JObj [(''db'', JStr ''Tasks''), (''done'', JObj [(''$ne'', JBool True)])])
                  None 500]\<rparr>"]
  by (simp add: eval_defs example_defs get_all_tasks_def
      project_result_def)


text \<open>
  Claim C10. \<open>batch_mark_done\<close> always answers with a result. Its requests are one
  \<open>markDone\<close> request per identifier of the input, in the order of the input, whatever
  the outcomes; \<open>completed_tasks\<close> holds the answers of the attempts that succeeded and
  \<open>failed_tasks\<close> the identifiers and exceptions of those that failed, both in order; and
  \<open>success_count + failure_count = total_requested\<close>, the length of the input.
\<close>

theorem batch_mark_done_attempts:
  assumes "mark_attempts tr (create_api_client st) task_ids n = (outs, n2)"
  shows "\<exists>r summary.
     batch_mark_done tr st task_ids dbg n =
       (SimpleResponse r summary ''/markDone'' (JInt (int (length task_ids))) dbg, n2) \<and>
     map fst outs = task_ids \<and>
     issued n n2 = map (mark_request (create_api_client st)) task_ids \<and>
     completed_tasks r = successes outs \<and>
     failed_tasks r = failures outs \<and>
     success_count r = length (completed_tasks r) \<and>
     failure_count r = length (failed_tasks r) \<and>
     success_count r + failure_count r = total_requested r \<and>
     total_requested r = length task_ids"
proof -
  from mark_attempts_sent [OF assms]
  have ids: "map fst outs = task_ids"
    and sent: "sent n2 = sent n @ map (mark_request (create_api_client st)) task_ids"
    by simp_all
  from ids have len: "length outs = length task_ids"
    by (metis length_map)
  from sent have "issued n n2 = map (mark_request (create_api_client st)) task_ids"
    by (simp add: issued_def)
  with ids len length_successes_failures [of outs] mark_each_attempts [OF assms, of "[]" "[]"]
  show ?thesis
    by (simp add: batch_mark_done_def)
qed


theorem batch_mark_done_attempts_witness:
  "mark_attempts picky (create_api_client st_full) [''t1'', ''bad'', ''t2''] fresh =
     ([(''t1'', Inr (JObj [(''ok'', JBool True)])), (''bad'', Inl (HTTPError 500)),
       (''t2'', Inr (JObj [(''ok'', JBool True)]))],
      \<lparr>world = (),
       sent = map (mark_request (create_api_client st_full)) [''t1'', ''bad'', ''t2'']\<rparr>) \<and>
   batch_mark_done picky st_full [''t1'', ''bad'', ''t2''] False fresh =
     (SimpleResponse
        \<lparr>completed_tasks = [JObj [(''ok'', JBool True)], JObj [(''ok'', JBool True)]],
         failed_tasks = [\<lparr>task_id = ''bad'', error = HTTPError 500\<rparr>],
         success_count = 2, failure_count = 1, total_requested = 3\<rparr>
        [Lit ''Marked '', Fmt (JInt 2), Lit '' of '', Fmt (JInt 3), Lit '' tasks as done'']
        ''/markDone'' (JInt 3) False,
      \<lparr>world = (),
       sent = map (mark_request (create_api_client st_full)) [''t1'', ''bad'', ''t2'']\<rparr>)"
  using batch_mark_done_attempts [of picky st_full "[''t1'', ''bad'', ''t2'']" fresh
      "[(''t1'', Inr (JObj [(''ok'', JBool True)])), (''bad'', Inl (HTTPError 500)),
        (''t2'', Inr (JObj [(''ok'', JBool True)]))]"
      "\<lparr>world = (),
        sent = map (mark_request (create_api_client st_full)) [''t1'', ''bad'', ''t2'']\<rparr>"
      False]
  by (simp add: batch_mark_done_def mark_task_done_def mark_request_def eval_defs example_defs)

end
